theory Spec2Isabelle
  imports Main "HOL-Library.Word" "HOL-Library.Sublist"
begin

section \<open>Data model (src/models/dashboardModel.js)\<close>

text \<open>
  A JavaScript string is a sequence of UTF-16 code units; \<open>length\<close> and
  \<open>substring\<close> count code units. Dates are milliseconds since the epoch.
  Document ids are natural numbers.
\<close>

type_synonym jstring = "16 word list"

definition js :: "string \<Rightarrow> jstring" where
  "js s = map (\<lambda>c. of_nat (of_char c)) s"

datatype activity_type =
  T_login | T_view | T_search | T_message_read | T_notification_click | T_other

record activity =
  activity_id :: nat
  activity_user :: nat
  activity_type :: activity_type
  details :: jstring
  activity_timestamp :: int

record message =
  message_id :: nat
  sender :: nat
  recipient :: nat
  subject :: jstring
  message_content :: jstring
  isRead :: bool
  message_createdAt :: int

datatype content_type = Article | Tutorial | Event | Notification | News

text \<open>
  In ContentSchema only \<open>title\<close> and \<open>type\<close> are required; \<open>description\<close>,
  \<open>content\<close>, \<open>author\<close>, \<open>startTime\<close> and \<open>endTime\<close> may be absent
  (\<open>None\<close> is JavaScript's \<open>undefined\<close>).
\<close>

record content =
  content_id :: nat
  title :: jstring
  content_type :: content_type
  description :: "jstring option"
  content_body :: "jstring option"
  author :: "nat option"
  tags :: "jstring list"
  isLive :: bool
  startTime :: "int option"
  endTime :: "int option"
  createdAt :: int

record search =
  search_id :: nat
  search_user :: nat
  query :: jstring
  timestamp :: int
  results :: nat

text \<open>
  Modelled from the spec: models/userModel.js is not among the sources. The spec gives
  User as identity {id, name, email, credential-hash}; the dashboard controller reads
  \<open>_id\<close>, \<open>name\<close> and \<open>email\<close> only.
\<close>

record user =
  user_id :: nat
  name :: jstring
  email :: jstring

text \<open>
  The document store. Every collection is the list of its documents in the store's
  natural order (for these collections, scanned without an index, the order of
  insertion): the order a query without \<open>sort\<close> returns them in and the order in
  which \<open>findOneAndUpdate\<close> looks for a match; \<open>create\<close> appends.
\<close>

record store =
  Activity :: "activity list"
  Message :: "message list"
  Content :: "content list"
  Search :: "search list"
  User :: "user list"

section \<open>Environment and errors\<close>

datatype store_op =
    Activity_create | Activity_find
  | Message_countDocuments | Message_find
  | Content_find | Content_find_upcoming | Content_find_recordings | Content_aggregate
  | Search_create | Search_find | Search_aggregate | Search_findOneAndUpdate
  | User_find

text \<open>
  What a handler reads from outside the store: the clock, which store accesses fail (and
  with what message), the regular-expression engine (\<open>regex p\<close> is the matcher of
  pattern \<open>p\<close> with flag \<open>i\<close>, \<open>None\<close> when \<open>p\<close> is not a valid pattern), the
  draws of \<open>Math.random\<close> and the ids given to new documents.
\<close>

record env =
  clock :: int
  fault :: "store_op \<Rightarrow> jstring option"
  regex :: "jstring \<Rightarrow> (jstring \<Rightarrow> bool) option"
  random :: "nat \<Rightarrow> nat"
  objectId :: "nat \<Rightarrow> nat"

text \<open>
  The errors a handler's \<open>try\<close> block can catch: a rejected store access with its
  message, a property read on \<open>undefined\<close> or \<open>null\<close>, an invalid pattern given to
  \<open>new RegExp\<close>. The response's \<open>message\<close> is the message of the error.
\<close>

datatype error = StoreError jstring | TypeError | SyntaxError

datatype 'a body = Success 'a | Failure error

datatype 'a response = Json (status: nat) (body: "'a body")

definition respond :: "error + 'a \<Rightarrow> 'a response" where
  "respond r = (case r of Inl err \<Rightarrow> Json 500 (Failure err) | Inr d \<Rightarrow> Json 200 (Success d))"

text \<open>
  The body of a handler's \<open>try\<close> block is a sequence of awaited steps over the store:
  a step returns a value or throws, and leaves a store behind either way.
\<close>

type_synonym 'a action = "store \<Rightarrow> (error + 'a) \<times> store"

definition ret :: "'a \<Rightarrow> 'a action" where
  "ret x = (\<lambda>s. (Inr x, s))"

definition sbind :: "'a action \<Rightarrow> ('a \<Rightarrow> 'b action) \<Rightarrow> 'b action" where
  "sbind m f = (\<lambda>s. case m s of (Inl err, s') \<Rightarrow> (Inl err, s') | (Inr x, s') \<Rightarrow> f x s')"

definition lift :: "error + 'a \<Rightarrow> 'a action" where
  "lift r = (\<lambda>s. (r, s))"

text \<open>A read of the store at call site \<open>op\<close>: it rejects when the environment says so.\<close>

definition find_in :: "env \<Rightarrow> store_op \<Rightarrow> (store \<Rightarrow> 'a) \<Rightarrow> 'a action" where
  "find_in e op g =
     (\<lambda>s. case fault e op of Some m \<Rightarrow> (Inl (StoreError m), s) | None \<Rightarrow> (Inr (g s), s))"

text \<open>A write to the store at call site \<open>op\<close>: a rejected write changes nothing.\<close>

definition write_to :: "env \<Rightarrow> store_op \<Rightarrow> (store \<Rightarrow> store) \<Rightarrow> unit action" where
  "write_to e op g =
     (\<lambda>s. case fault e op of Some m \<Rightarrow> (Inl (StoreError m), s) | None \<Rightarrow> (Inr (), g s))"

text \<open>\<open>try { ... res.status(200).json(...) } catch (error) { res.status(500).json(...) }\<close>\<close>

definition handler :: "'a action \<Rightarrow> store \<Rightarrow> 'a response \<times> store" where
  "handler m s = (case m s of (r, s') \<Rightarrow> (respond r, s'))"

definition bnd :: "error + 'a \<Rightarrow> ('a \<Rightarrow> error + 'b) \<Rightarrow> error + 'b" where
  "bnd r f = (case r of Inl err \<Rightarrow> Inl err | Inr x \<Rightarrow> f x)"

fun traverse :: "('a \<Rightarrow> error + 'b) \<Rightarrow> 'a list \<Rightarrow> error + 'b list" where
  "traverse f [] = Inr []"
| "traverse f (x # xs) = bnd (f x) (\<lambda>y. bnd (traverse f xs) (\<lambda>ys. Inr (y # ys)))"

text \<open>Sorting keeps documents with equal keys in their natural order.\<close>

definition sort_asc :: "('a \<Rightarrow> int) \<Rightarrow> 'a list \<Rightarrow> 'a list" where
  "sort_asc k xs = sort_key k xs"

definition sort_desc :: "('a \<Rightarrow> int) \<Rightarrow> 'a list \<Rightarrow> 'a list" where
  "sort_desc k xs = sort_key (\<lambda>x. - k x) xs"

definition limit :: "nat \<Rightarrow> 'a list \<Rightarrow> 'a list" where
  "limit n xs = take n xs"

definition truthy :: "jstring option \<Rightarrow> bool" where
  "truthy v = (case v of None \<Rightarrow> False | Some t \<Rightarrow> t \<noteq> [])"

definition text_of :: "jstring option \<Rightarrow> jstring" where
  "text_of v = (case v of None \<Rightarrow> [] | Some t \<Rightarrow> t)"

definition substring :: "jstring \<Rightarrow> nat \<Rightarrow> nat \<Rightarrow> jstring" where
  "substring t i j = take (j - i) (drop i t)"

section \<open>Controller (src/controllers/dashboardController.js)\<close>

subsection \<open>logActivity\<close>

text \<open>The helper catches the failure of \<open>Activity.create\<close> itself and never throws.\<close>

definition logActivity :: "env \<Rightarrow> nat \<Rightarrow> activity_type \<Rightarrow> jstring \<Rightarrow> unit action" where
  "logActivity e userId ty det =
     (\<lambda>s. case write_to e Activity_create
              (\<lambda>s. s\<lparr>Activity := Activity s @
                 [\<lparr>activity_id = objectId e 0, activity_user = userId, activity_type = ty,
                   details = det, activity_timestamp = clock e\<rparr>]\<rparr>) s of
            (Inl err, s') \<Rightarrow> (Inr (), s')
          | (Inr u, s') \<Rightarrow> (Inr (), s'))"

text \<open>\<open>populate\<close> replaces a reference by the referenced user, or by \<open>null\<close>.\<close>

definition populate :: "store \<Rightarrow> nat \<Rightarrow> user option" where
  "populate s uid = List.find (\<lambda>u. user_id u = uid) (User s)"

subsection \<open>getHomePage\<close>

record announcement =
  announcement_id :: nat
  announcement_title :: jstring
  announcement_content :: jstring

record quick_stats =
  notifications :: nat
  unread_messages :: nat
  tasks :: nat

record home_data =
  recentActivity :: "activity list"
  quickStats :: quick_stats
  announcements :: "announcement list"

definition recentActivities :: "nat \<Rightarrow> store \<Rightarrow> activity list" where
  "recentActivities userId s =
     limit 5 (sort_desc activity_timestamp (filter (\<lambda>a. activity_user a = userId) (Activity s)))"

definition unreadMessages :: "nat \<Rightarrow> store \<Rightarrow> nat" where
  "unreadMessages userId s =
     length (filter (\<lambda>m. recipient m = userId \<and> isRead m = False) (Message s))"

definition recentContent :: "store \<Rightarrow> content list" where
  "recentContent s = limit 3 (sort_desc createdAt (Content s))"

text \<open>\<open>content.description || content.content.substring(0, 100)\<close>\<close>

definition excerpt :: "content \<Rightarrow> error + jstring" where
  "excerpt c =
     (if truthy (description c) then Inr (text_of (description c))
      else (case content_body c of
              None \<Rightarrow> Inl TypeError
            | Some b \<Rightarrow> Inr (substring b 0 100)))"

definition announcement_of :: "content \<Rightarrow> error + announcement" where
  "announcement_of c =
     bnd (excerpt c) (\<lambda>x.
       Inr \<lparr>announcement_id = content_id c, announcement_title = title c,
            announcement_content = x\<rparr>)"

definition getHomePage :: "env \<Rightarrow> nat \<Rightarrow> store \<Rightarrow> home_data response \<times> store" where
  "getHomePage e userId = handler
     (sbind (logActivity e userId T_view (js ''dashboard home'')) (\<lambda>_.
      sbind (find_in e Activity_find (recentActivities userId)) (\<lambda>acts.
      sbind (find_in e Message_countDocuments (unreadMessages userId)) (\<lambda>unread.
      sbind (find_in e Content_find recentContent) (\<lambda>recent.
      sbind (lift (traverse announcement_of recent)) (\<lambda>anns.
      ret \<lparr>recentActivity = acts,
           quickStats = \<lparr>notifications = 5, unread_messages = unread, tasks = 8\<rparr>,
           announcements = anns\<rparr>))))))"

subsection \<open>getSearchPage\<close>

text \<open>A result's \<open>type\<close>, \<open>'content'\<close> or \<open>'user'\<close>, is its constructor.\<close>

datatype search_result =
    is_content: ContentResult (result_id: nat) (result_title: jstring)
      (result_description: "jstring option") (matchReason: jstring)
  | is_user: UserResult (result_id: nat) (result_name: jstring) (result_email: jstring)
      (matchReason: jstring)

record search_data =
  recentSearches :: "jstring list"
  popularSearches :: "jstring list"
  search_results :: "search_result list"

text \<open>\<open>Search.create({ user: userId, query })\<close>, with the schema's defaults.\<close>

definition new_search :: "env \<Rightarrow> nat \<Rightarrow> jstring \<Rightarrow> search" where
  "new_search e userId q =
     \<lparr>search_id = objectId e 1, search_user = userId, query = q,
      timestamp = clock e, results = 0\<rparr>"

definition Search_new :: "env \<Rightarrow> nat \<Rightarrow> jstring \<Rightarrow> unit action" where
  "Search_new e userId q = write_to e Search_create
     (\<lambda>s. s\<lparr>Search := Search s @ [new_search e userId q]\<rparr>)"

definition recent_searches :: "nat \<Rightarrow> store \<Rightarrow> search list" where
  "recent_searches userId s =
     limit 5 (sort_desc timestamp (filter (\<lambda>r. search_user r = userId) (Search s)))"

text \<open>
  \<open>$group\<close> by a key and count, \<open>$sort\<close> by count descending, \<open>$limit 5\<close>. The groups
  are taken in the order of the last occurrence of their key.
\<close>

definition group_count :: "'a list \<Rightarrow> ('a \<times> nat) list" where
  "group_count ks = map (\<lambda>k. (k, count_list ks k)) (remdups ks)"

definition top5 :: "'a list \<Rightarrow> ('a \<times> nat) list" where
  "top5 ks = limit 5 (sort_desc (\<lambda>g. int (snd g)) (group_count ks))"

definition popular_searches :: "store \<Rightarrow> (jstring \<times> nat) list" where
  "popular_searches s = top5 (map query (Search s))"

text \<open>\<open>new RegExp(q, 'i')\<close> throws a SyntaxError on an invalid pattern.\<close>

definition compile :: "env \<Rightarrow> jstring \<Rightarrow> error + (jstring \<Rightarrow> bool)" where
  "compile e q = (case regex e q of None \<Rightarrow> Inl SyntaxError | Some rx \<Rightarrow> Inr rx)"

definition content_matches :: "(jstring \<Rightarrow> bool) \<Rightarrow> content \<Rightarrow> bool" where
  "content_matches rx c =
     (rx (title c) \<or> (case description c of None \<Rightarrow> False | Some d \<Rightarrow> rx d) \<or>
      list_ex rx (tags c))"

definition user_matches :: "(jstring \<Rightarrow> bool) \<Rightarrow> user \<Rightarrow> bool" where
  "user_matches rx u = (rx (name u) \<or> rx (email u))"

definition dquote :: "16 word" where
  "dquote = 34"

definition format_content_result :: "jstring \<Rightarrow> content \<Rightarrow> search_result" where
  "format_content_result q item =
     ContentResult (content_id item) (title item) (description item)
       (js ''Content matches '' @ [dquote] @ q @ [dquote])"

definition format_user_result :: "jstring \<Rightarrow> user \<Rightarrow> search_result" where
  "format_user_result q u =
     UserResult (user_id u) (name u) (email u)
       (js ''User matches '' @ [dquote] @ q @ [dquote])"

text \<open>\<open>findOneAndUpdate\<close> updates the first document, in natural order, that matches.\<close>

fun update_first :: "('a \<Rightarrow> bool) \<Rightarrow> ('a \<Rightarrow> 'a) \<Rightarrow> 'a list \<Rightarrow> 'a list" where
  "update_first P f [] = []"
| "update_first P f (x # xs) = (if P x then f x # xs else x # update_first P f xs)"

definition set_result_count :: "env \<Rightarrow> nat \<Rightarrow> jstring \<Rightarrow> nat \<Rightarrow> unit action" where
  "set_result_count e userId q n = write_to e Search_findOneAndUpdate
     (\<lambda>s. s\<lparr>Search := update_first (\<lambda>r. search_user r = userId \<and> query r = q)
                         (\<lambda>r. r\<lparr>results := n\<rparr>) (Search s)\<rparr>)"

definition contentResults :: "(jstring \<Rightarrow> bool) \<Rightarrow> store \<Rightarrow> content list" where
  "contentResults rx s = limit 10 (filter (content_matches rx) (Content s))"

definition userResults :: "(jstring \<Rightarrow> bool) \<Rightarrow> store \<Rightarrow> user list" where
  "userResults rx s = limit 5 (filter (user_matches rx) (User s))"

text \<open>\<open>[...formattedContentResults, ...formattedUserResults]\<close>\<close>

definition found :: "(jstring \<Rightarrow> bool) \<Rightarrow> jstring \<Rightarrow> store \<Rightarrow> search_result list" where
  "found rx q s = map (format_content_result q) (contentResults rx s) @
                  map (format_user_result q) (userResults rx s)"

definition search_for :: "env \<Rightarrow> nat \<Rightarrow> jstring \<Rightarrow> search_result list action" where
  "search_for e userId q =
     sbind (lift (compile e q)) (\<lambda>rx.
     sbind (find_in e Content_find (contentResults rx)) (\<lambda>cs.
     sbind (find_in e User_find (userResults rx)) (\<lambda>us.
     let res = map (format_content_result q) cs @ map (format_user_result q) us in
     sbind (set_result_count e userId q (length res)) (\<lambda>_.
     ret res))))"

definition getSearchPage ::
  "env \<Rightarrow> nat \<Rightarrow> jstring option \<Rightarrow> store \<Rightarrow> search_data response \<times> store" where
  "getSearchPage e userId q = handler
     (sbind (if truthy q
             then sbind (logActivity e userId T_search (text_of q)) (\<lambda>_.
                  Search_new e userId (text_of q))
             else ret ()) (\<lambda>_.
      sbind (find_in e Search_find (recent_searches userId)) (\<lambda>recent.
      sbind (find_in e Search_aggregate popular_searches) (\<lambda>popular.
      sbind (if truthy q then search_for e userId (text_of q) else ret []) (\<lambda>res.
      ret \<lparr>recentSearches = map query recent,
           popularSearches = map fst popular,
           search_results = res\<rparr>)))))"

subsection \<open>getInbox\<close>

record from_user =
  from_id :: nat
  from_name :: jstring

record inbox_message =
  inbox_id :: nat
  inbox_from :: from_user
  inbox_subject :: jstring
  preview :: jstring
  inbox_isRead :: bool
  inbox_timestamp :: int

record inbox_data =
  unreadCount :: nat
  messages :: "inbox_message list"

text \<open>The fetched page: each message comes with its populated sender.\<close>

definition inbox_messages :: "nat \<Rightarrow> store \<Rightarrow> message list" where
  "inbox_messages userId s =
     limit 20 (sort_desc message_createdAt (filter (\<lambda>m. recipient m = userId) (Message s)))"

definition inbox_page :: "nat \<Rightarrow> store \<Rightarrow> (message \<times> user option) list" where
  "inbox_page userId s = map (\<lambda>m. (m, populate s (sender m))) (inbox_messages userId s)"

definition preview_of :: "jstring \<Rightarrow> jstring" where
  "preview_of c = substring c 0 100 @ (if length c > 100 then js ''...'' else [])"

definition format_message :: "message \<times> user option \<Rightarrow> error + inbox_message" where
  "format_message p =
     (case p of (msg, populated) \<Rightarrow>
        (case populated of
           None \<Rightarrow> Inl TypeError
         | Some u \<Rightarrow> Inr
             \<lparr>inbox_id = message_id msg,
              inbox_from = \<lparr>from_id = user_id u, from_name = name u\<rparr>,
              inbox_subject = subject msg,
              preview = preview_of (message_content msg),
              inbox_isRead = isRead msg,
              inbox_timestamp = message_createdAt msg\<rparr>))"

definition getInbox :: "env \<Rightarrow> nat \<Rightarrow> store \<Rightarrow> inbox_data response \<times> store" where
  "getInbox e userId = handler
     (sbind (logActivity e userId T_view (js ''inbox'')) (\<lambda>_.
      sbind (find_in e Message_find (inbox_page userId)) (\<lambda>msgs.
      let unread = length (filter (\<lambda>p. \<not> isRead (fst p)) msgs) in
      sbind (lift (traverse format_message msgs)) (\<lambda>formattedMessages.
      ret \<lparr>unreadCount = unread, messages = formattedMessages\<rparr>))))"

subsection \<open>getForYouContent\<close>

text \<open>
  \<open>readTime\<close> is \<open>Math.ceil(content.content?.length / 1000) + ' min'\<close>: the number is
  kept, \<open>None\<close> being \<open>NaN\<close>. \<open>mutualConnections\<close> is \<open>Math.floor(Math.random() * 5)\<close>.
\<close>

record recommendation =
  recommendation_id :: nat
  recommendation_type :: content_type
  recommendation_title :: jstring
  recommendation_description :: "jstring option"
  readTime :: "nat option"

record connection =
  connection_id :: nat
  connection_name :: jstring
  connection_email :: jstring
  mutualConnections :: nat

record for_you_data =
  recommendedContent :: "recommendation list"
  suggestedConnections :: "connection list"
  trendingTopics :: "jstring list"

definition userActivities :: "nat \<Rightarrow> store \<Rightarrow> activity list" where
  "userActivities userId s =
     limit 50 (sort_desc activity_timestamp (filter (\<lambda>a. activity_user a = userId) (Activity s)))"

text \<open>\<open>Search.find({ user: userId }).select('query').limit(10)\<close>: no \<open>sort\<close>.\<close>

definition searchTerms :: "nat \<Rightarrow> store \<Rightarrow> search list" where
  "searchTerms userId s = limit 10 (filter (\<lambda>r. search_user r = userId) (Search s))"

definition recommended :: "(jstring \<Rightarrow> bool) list \<Rightarrow> content \<Rightarrow> bool" where
  "recommended rxs c =
     (list_ex (\<lambda>t. list_ex (\<lambda>rx. rx t) rxs) (tags c) \<or> list_ex (\<lambda>rx. rx (title c)) rxs)"

text \<open>Mongoose applies \<open>sort\<close> before \<open>limit\<close>, whatever the order of the two calls.\<close>

definition recommendedContent_of :: "(jstring \<Rightarrow> bool) list \<Rightarrow> store \<Rightarrow> content list" where
  "recommendedContent_of rxs s = limit 5 (sort_desc createdAt (filter (recommended rxs) (Content s)))"

definition format_recommendation :: "content \<Rightarrow> recommendation" where
  "format_recommendation c =
     \<lparr>recommendation_id = content_id c, recommendation_type = content_type c,
      recommendation_title = title c, recommendation_description = description c,
      readTime = (case content_body c of None \<Rightarrow> None
                  | Some b \<Rightarrow> Some ((length b + 999) div 1000))\<rparr>"

definition suggestedUsers :: "nat \<Rightarrow> store \<Rightarrow> user list" where
  "suggestedUsers userId s = limit 3 (filter (\<lambda>u. user_id u \<noteq> userId) (User s))"

definition format_connection :: "env \<Rightarrow> nat \<times> user \<Rightarrow> connection" where
  "format_connection e p =
     (case p of (i, u) \<Rightarrow>
        \<lparr>connection_id = user_id u, connection_name = name u, connection_email = email u,
         mutualConnections = random e i mod 5\<rparr>)"

definition trendingTags :: "store \<Rightarrow> (jstring \<times> nat) list" where
  "trendingTags s = top5 (concat (map tags (Content s)))"

definition getForYouContent :: "env \<Rightarrow> nat \<Rightarrow> store \<Rightarrow> for_you_data response \<times> store" where
  "getForYouContent e userId = handler
     (sbind (logActivity e userId T_view (js ''for you content'')) (\<lambda>_.
      sbind (find_in e Activity_find (userActivities userId)) (\<lambda>acts.
      sbind (find_in e Search_find (searchTerms userId)) (\<lambda>terms.
      let searchQueries = map query terms in
      sbind (lift (traverse (compile e) searchQueries)) (\<lambda>rxs.
      sbind (find_in e Content_find (recommendedContent_of rxs)) (\<lambda>recs.
      sbind (find_in e User_find (suggestedUsers userId)) (\<lambda>users.
      sbind (find_in e Content_aggregate trendingTags) (\<lambda>trending.
      ret \<lparr>recommendedContent = map format_recommendation recs,
           suggestedConnections = map (format_connection e) (enumerate 0 users),
           trendingTopics = map fst trending\<rparr>))))))))"

subsection \<open>getLiveContent\<close>

text \<open>
  Durations are \<open>Math.round((endTime - startTime) / (1000 * 60)) + ' minutes'\<close>: the
  number is kept, \<open>None\<close> being \<open>NaN\<close>. \<open>participants\<close> is
  \<open>Math.floor(Math.random() * 100) + 10\<close>. A URL is its path prefix and the id. A
  recording's date is the UTC day number of its start.
\<close>

record live_event =
  live_id :: nat
  live_title :: jstring
  live_host :: jstring
  participants :: nat
  live_startTime :: "int option"
  estimatedDuration :: "int option"
  joinUrl :: "jstring \<times> nat"

record upcoming_event =
  upcoming_id :: nat
  upcoming_title :: jstring
  upcoming_host :: jstring
  scheduledTime :: "int option"
  upcoming_duration :: "int option"
  registerUrl :: "jstring \<times> nat"

record recording =
  recording_id :: nat
  recording_title :: jstring
  recordedDate :: int
  recording_duration :: "int option"
  viewUrl :: "jstring \<times> nat"

record live_data =
  currentLiveEvents :: "live_event list"
  upcomingEvents :: "upcoming_event list"
  recentRecordings :: "recording list"

definition populate_author :: "store \<Rightarrow> content \<Rightarrow> content \<times> user option" where
  "populate_author s c = (c, case author c of None \<Rightarrow> None | Some a \<Rightarrow> populate s a)"

definition is_current :: "int \<Rightarrow> content \<Rightarrow> bool" where
  "is_current now c =
     (isLive c \<and> (case startTime c of None \<Rightarrow> False | Some a \<Rightarrow> a \<le> now) \<and>
      (case endTime c of None \<Rightarrow> False | Some b \<Rightarrow> b > now))"

definition is_upcoming :: "int \<Rightarrow> content \<Rightarrow> bool" where
  "is_upcoming now c = (isLive c \<and> (case startTime c of None \<Rightarrow> False | Some a \<Rightarrow> a > now))"

definition is_recording :: "int \<Rightarrow> content \<Rightarrow> bool" where
  "is_recording now c = (isLive c \<and> (case endTime c of None \<Rightarrow> False | Some b \<Rightarrow> b < now))"

definition time_key :: "int option \<Rightarrow> int" where
  "time_key t = (case t of None \<Rightarrow> 0 | Some a \<Rightarrow> a)"

definition current_events :: "int \<Rightarrow> store \<Rightarrow> content list" where
  "current_events now s = filter (is_current now) (Content s)"

definition upcoming_events :: "int \<Rightarrow> store \<Rightarrow> content list" where
  "upcoming_events now s =
     limit 5 (sort_asc (\<lambda>c. time_key (startTime c)) (filter (is_upcoming now) (Content s)))"

definition recent_recordings :: "int \<Rightarrow> store \<Rightarrow> content list" where
  "recent_recordings now s =
     limit 5 (sort_desc (\<lambda>c. time_key (endTime c)) (filter (is_recording now) (Content s)))"

text \<open>\<open>event.author?.name || 'System'\<close>\<close>

definition host_of :: "user option \<Rightarrow> jstring" where
  "host_of populated =
     (case populated of
        None \<Rightarrow> js ''System''
      | Some u \<Rightarrow> if name u = [] then js ''System'' else name u)"

definition minutes :: "content \<Rightarrow> int option" where
  "minutes c =
     (case endTime c of
        None \<Rightarrow> None
      | Some b \<Rightarrow> (case startTime c of
                    None \<Rightarrow> None
                  | Some a \<Rightarrow> Some ((b - a + 30000) div 60000)))"

definition format_live :: "env \<Rightarrow> nat \<times> content \<times> user option \<Rightarrow> live_event" where
  "format_live e p =
     (case p of (i, event, populated) \<Rightarrow>
        \<lparr>live_id = content_id event, live_title = title event,
         live_host = host_of populated,
         participants = random e i mod 100 + 10,
         live_startTime = startTime event,
         estimatedDuration = minutes event,
         joinUrl = (js ''/join-event/'', content_id event)\<rparr>)"

definition format_upcoming :: "content \<times> user option \<Rightarrow> upcoming_event" where
  "format_upcoming p =
     (case p of (event, populated) \<Rightarrow>
        \<lparr>upcoming_id = content_id event, upcoming_title = title event,
         upcoming_host = host_of populated,
         scheduledTime = startTime event,
         upcoming_duration = minutes event,
         registerUrl = (js ''/register/'', content_id event)\<rparr>)"

text \<open>\<open>recording.startTime.toISOString()\<close> throws when \<open>startTime\<close> is absent.\<close>

definition format_recording :: "content \<times> user option \<Rightarrow> error + recording" where
  "format_recording p =
     (case p of (rec, populated) \<Rightarrow>
        (case startTime rec of
           None \<Rightarrow> Inl TypeError
         | Some a \<Rightarrow> Inr
             \<lparr>recording_id = content_id rec, recording_title = title rec,
              recordedDate = a div 86400000,
              recording_duration = minutes rec,
              viewUrl = (js ''/recordings/'', content_id rec)\<rparr>))"

definition getLiveContent :: "env \<Rightarrow> nat \<Rightarrow> store \<Rightarrow> live_data response \<times> store" where
  "getLiveContent e userId = handler
     (sbind (logActivity e userId T_view (js ''live content'')) (\<lambda>_.
      let now = clock e in
      sbind (find_in e Content_find
               (\<lambda>s. map (populate_author s) (current_events now s))) (\<lambda>current.
      sbind (find_in e Content_find_upcoming
               (\<lambda>s. map (populate_author s) (upcoming_events now s))) (\<lambda>upcoming.
      sbind (find_in e Content_find_recordings
               (\<lambda>s. map (populate_author s) (recent_recordings now s))) (\<lambda>recordings.
      let formattedLiveEvents = map (format_live e) (enumerate 0 current);
          formattedUpcomingEvents = map format_upcoming upcoming in
      sbind (lift (traverse format_recording recordings)) (\<lambda>formattedRecordings.
      ret \<lparr>currentLiveEvents = formattedLiveEvents,
           upcomingEvents = formattedUpcomingEvents,
           recentRecordings = formattedRecordings\<rparr>))))))"

section \<open>Observing failures\<close>

text \<open>
  The message of the first store access, in program order, that the environment makes
  fail; what a response tells about success or failure; an environment with the
  activity-logging write set to fail (\<open>Some\<close> message) or to succeed (\<open>None\<close>).
\<close>

fun first_fault :: "env \<Rightarrow> store_op list \<Rightarrow> jstring option" where
  "first_fault e [] = None"
| "first_fault e (op # ops) = (case fault e op of Some m \<Rightarrow> Some m | None \<Rightarrow> first_fault e ops)"

definition outcome :: "'a response \<Rightarrow> nat \<times> error option" where
  "outcome r = (status r, case body r of Success d \<Rightarrow> None | Failure err \<Rightarrow> Some err)"

definition logging_fault :: "env \<Rightarrow> jstring option \<Rightarrow> env" where
  "logging_fault e x = e\<lparr>fault := (fault e)(Activity_create := x)\<rparr>"

section \<open>Example environment and stores\<close>

text \<open>
  A stand-in for the pattern engine, right for patterns without metacharacters and text
  without letters of differing case: the pattern matches where it occurs in the text.
\<close>

definition plain_regex :: "jstring \<Rightarrow> (jstring \<Rightarrow> bool) option" where
  "plain_regex p = Some (\<lambda>t. sublist p t)"

definition env0 :: env where
  "env0 = \<lparr>clock = 1000, fault = (\<lambda>op. None), regex = plain_regex,
           random = (\<lambda>i. 7 * i + 3), objectId = (\<lambda>i. 900 + i)\<rparr>"

definition ann :: user where
  "ann = \<lparr>user_id = 7, name = js ''Ann'', email = js ''ann@x.io''\<rparr>"

definition bob :: user where
  "bob = \<lparr>user_id = 8, name = js ''Bob'', email = js ''bob@x.io''\<rparr>"

definition long_message :: message where
  "long_message = \<lparr>message_id = 10, sender = 8, recipient = 7, subject = js ''hi'',
     message_content = replicate 150 97, isRead = False, message_createdAt = 100\<rparr>"

definition short_message :: message where
  "short_message = \<lparr>message_id = 11, sender = 8, recipient = 7, subject = js ''re'',
     message_content = replicate 50 98, isRead = True, message_createdAt = 200\<rparr>"

definition inbox_store :: store where
  "inbox_store = \<lparr>Activity = [], Message = [long_message, short_message], Content = [],
     Search = [], User = [ann, bob]\<rparr>"

definition inbox_expected :: inbox_data where
  "inbox_expected =
     \<lparr>unreadCount = 1,
      messages =
       [\<lparr>inbox_id = 11, inbox_from = \<lparr>from_id = 8, from_name = js ''Bob''\<rparr>,
         inbox_subject = js ''re'', preview = replicate 50 98, inbox_isRead = True,
         inbox_timestamp = 200\<rparr>,
        \<lparr>inbox_id = 10, inbox_from = \<lparr>from_id = 8, from_name = js ''Bob''\<rparr>,
         inbox_subject = js ''hi'', preview = replicate 100 97 @ js ''...'',
         inbox_isRead = False, inbox_timestamp = 100\<rparr>]\<rparr>"

definition go_article :: content where
  "go_article = \<lparr>content_id = 20, title = js ''go tips'', content_type = Article,
     description = None, content_body = None, author = None, tags = [js ''go''],
     isLive = False, startTime = None, endTime = None, createdAt = 50\<rparr>"

definition old_search :: search where
  "old_search = \<lparr>search_id = 50, search_user = 7, query = js ''go'', timestamp = 500,
     results = 3\<rparr>"

definition search_store :: store where
  "search_store = \<lparr>Activity = [], Message = [], Content = [go_article],
     Search = [old_search], User = [ann, bob]\<rparr>"

definition search_expected :: search_data where
  "search_expected =
     \<lparr>recentSearches = [js ''go'', js ''go''],
      popularSearches = [js ''go''],
      search_results = [ContentResult 20 (js ''go tips'') None
                          (js ''Content matches '' @ [dquote] @ js ''go'' @ [dquote])]\<rparr>"

definition early_search :: "nat \<Rightarrow> search" where
  "early_search i = \<lparr>search_id = 100 + i, search_user = 7, query = js ''go'',
     timestamp = int i, results = 0\<rparr>"

definition rust_search :: search where
  "rust_search = \<lparr>search_id = 120, search_user = 7, query = js ''rust'', timestamp = 12,
     results = 0\<rparr>"

definition rust_book :: content where
  "rust_book = \<lparr>content_id = 21, title = js ''rust book'', content_type = Tutorial,
     description = None, content_body = Some (js ''fn main''), author = None,
     tags = [js ''rust''], isLive = False, startTime = None, endTime = None, createdAt = 60\<rparr>"

definition for_you_store :: store where
  "for_you_store = \<lparr>Activity = [], Message = [], Content = [rust_book],
     Search = map early_search [2, 3, 4, 5, 6, 7, 8, 9, 10, 11] @ [rust_search], User = [ann, bob]\<rparr>"

text \<open>The claim's words: the \<open>n\<close> most recent search records of the user.\<close>

definition most_recent_searches :: "nat \<Rightarrow> nat \<Rightarrow> store \<Rightarrow> search list" where
  "most_recent_searches n userId s =
     limit n (sort_desc timestamp (filter (\<lambda>r. search_user r = userId) (Search s)))"

definition live_env :: env where
  "live_env = env0\<lparr>clock := 7200000\<rparr>"

definition talk_by_ann :: content where
  "talk_by_ann = \<lparr>content_id = 30, title = js ''talk'', content_type = Event,
     description = None, content_body = None, author = Some 7, tags = [],
     isLive = True, startTime = Some 0, endTime = Some 3600000, createdAt = 0\<rparr>"

definition talk_no_author :: content where
  "talk_no_author = talk_by_ann\<lparr>author := None\<rparr>"

definition workshop :: content where
  "workshop = \<lparr>content_id = 31, title = js ''workshop'', content_type = Event,
     description = None, content_body = None, author = Some 7, tags = [],
     isLive = True, startTime = Some 3600000, endTime = Some 10800000, createdAt = 0\<rparr>"

definition meetup :: content where
  "meetup = \<lparr>content_id = 32, title = js ''meetup'', content_type = Event,
     description = None, content_body = None, author = None, tags = [],
     isLive = True, startTime = Some 9000000, endTime = Some 9900000, createdAt = 0\<rparr>"

definition ending_now :: content where
  "ending_now = \<lparr>content_id = 33, title = js ''closing'', content_type = Event,
     description = None, content_body = None, author = None, tags = [],
     isLive = True, startTime = Some 3600000, endTime = Some 7200000, createdAt = 0\<rparr>"

definition live_store :: store where
  "live_store = \<lparr>Activity = [], Message = [], Content = [workshop, talk_by_ann, meetup],
     Search = [], User = [ann, bob]\<rparr>"

definition ending_store :: store where
  "ending_store = live_store\<lparr>Content := [ending_now]\<rparr>"

definition recorded_store :: store where
  "recorded_store = live_store\<lparr>Content := [talk_by_ann]\<rparr>"

definition unauthored_store :: store where
  "unauthored_store = live_store\<lparr>Content := [talk_no_author]\<rparr>"

definition talk_recording :: recording where
  "talk_recording = \<lparr>recording_id = 30, recording_title = js ''talk'', recordedDate = 0,
     recording_duration = Some 60, viewUrl = (js ''/recordings/'', 30)\<rparr>"

definition live_expected :: live_data where
  "live_expected =
     \<lparr>currentLiveEvents =
        [\<lparr>live_id = 31, live_title = js ''workshop'', live_host = js ''Ann'', participants = 13,
          live_startTime = Some 3600000, estimatedDuration = Some 120,
          joinUrl = (js ''/join-event/'', 31)\<rparr>],
      upcomingEvents =
        [\<lparr>upcoming_id = 32, upcoming_title = js ''meetup'', upcoming_host = js ''System'',
          scheduledTime = Some 9000000, upcoming_duration = Some 15,
          registerUrl = (js ''/register/'', 32)\<rparr>],
      recentRecordings = [talk_recording]\<rparr>"

definition degraded_env :: env where
  "degraded_env = logging_fault env0 (Some (js ''down''))"

definition failing_env :: env where
  "failing_env = env0\<lparr>fault := (fault env0)(Message_find := Some (js ''boom''))\<rparr>"

definition later_event :: "nat \<Rightarrow> content" where
  "later_event i = \<lparr>content_id = 40 + i, title = js ''later'', content_type = Event,
     description = None, content_body = None, author = None, tags = [],
     isLive = True, startTime = Some (8000000 + int i), endTime = Some (8600000 + int i),
     createdAt = 0\<rparr>"

definition later_upcoming :: "nat \<Rightarrow> upcoming_event" where
  "later_upcoming i = \<lparr>upcoming_id = 40 + i, upcoming_title = js ''later'',
     upcoming_host = js ''System'', scheduledTime = Some (8000000 + int i),
     upcoming_duration = Some 10, registerUrl = (js ''/register/'', 40 + i)\<rparr>"

definition crowded_store :: store where
  "crowded_store = live_store\<lparr>Content := map later_event [2, 3, 4, 5, 6, 7]\<rparr>"

definition inverted :: content where
  "inverted = \<lparr>content_id = 34, title = js ''inverted'', content_type = Event,
     description = None, content_body = None, author = None, tags = [],
     isLive = True, startTime = Some 9000000, endTime = Some 3600000, createdAt = 0\<rparr>"

definition inverted_store :: store where
  "inverted_store = live_store\<lparr>Content := [inverted]\<rparr>"

section \<open>Basic facts\<close>

subsection \<open>Sequencing\<close>

lemma traverse_Inr_iff: "traverse f xs = Inr ys \<longleftrightarrow> map f xs = map Inr ys"
proof (induction xs arbitrary: ys)
  case Nil
  then show ?case by auto
next
  case (Cons a xs)
  show ?case
  proof (cases "f a")
    case (Inl err)
    then show ?thesis by (auto simp: bnd_def)
  next
    case fa: (Inr y)
    show ?thesis
    proof (cases "traverse f xs")
      case (Inl err)
      have "\<And>zs. map f xs \<noteq> map Inr zs"
        using Cons.IH Inl by (metis sum.distinct(1))
      with fa Inl show ?thesis by (auto simp: bnd_def)
    next
      case (Inr zs)
      with Cons.IH [of zs] have "map f xs = map Inr zs" by simp
      with fa Inr show ?thesis by (auto simp: bnd_def inj_map_eq_map [OF inj_Inr])
    qed
  qed
qed

lemma traverse_Inl: "traverse f xs = Inl err \<Longrightarrow> \<exists>x\<in>set xs. f x = Inl err"
  by (induction xs) (auto simp: bnd_def split: sum.splits)

lemma traverse_Inl_ex: "x \<in> set xs \<Longrightarrow> f x = Inl err \<Longrightarrow> \<exists>err'. traverse f xs = Inl err'"
  by (induction xs) (auto simp: bnd_def split: sum.splits)

lemma logActivity_eq:
  "logActivity e userId ty det s =
     (Inr (), if fault e Activity_create = None
              then s\<lparr>Activity := Activity s @
                 [\<lparr>activity_id = objectId e 0, activity_user = userId, activity_type = ty,
                   details = det, activity_timestamp = clock e\<rparr>]\<rparr>
              else s)"
  by (simp add: logActivity_def write_to_def split: option.splits)

lemma logging_swallowed:
  "fst (logActivity e userId ty det s) = Inr ()"
  "fault e Activity_create \<noteq> None \<Longrightarrow> snd (logActivity e userId ty det s) = s"
  by (simp_all add: logActivity_eq)

subsection \<open>Sorting and limits\<close>

lemma set_limit_sort_desc: "set (limit n (sort_desc k xs)) \<subseteq> set xs"
  unfolding limit_def sort_desc_def by (metis set_sort set_take_subset)

lemma length_limit: "length (limit n xs) \<le> n"
  by (simp add: limit_def)

lemma sorted_limit_sort_desc:
  "sorted (map (\<lambda>x. - k x) (limit n (sort_desc k xs)))"
  unfolding limit_def sort_desc_def
  by (simp add: take_map [symmetric] sorted_wrt_take)

lemma limit_sort_desc_dropped:
  assumes "x \<in> set (limit n (sort_desc k xs))" and "y \<in> set xs"
    and "y \<notin> set (limit n (sort_desc k xs))"
  shows "k y \<le> k x"
proof -
  let ?ys = "sort_key (\<lambda>x. - k x) xs"
  have "sorted (map (\<lambda>x. - k x) (take n ?ys @ drop n ?ys))" by simp
  then have *: "\<forall>a\<in>set (take n ?ys). \<forall>b\<in>set (drop n ?ys). - k a \<le> - k b"
    unfolding map_append sorted_append by auto
  have "set (take n ?ys) \<union> set (drop n ?ys) = set xs"
    by (metis append_take_drop_id set_append set_sort)
  then have "y \<in> set (drop n ?ys)"
    using assms(2,3) unfolding limit_def sort_desc_def by auto
  with * assms(1) show ?thesis unfolding limit_def sort_desc_def by fastforce
qed

lemma length_limit_sort_desc: "length (limit n (sort_desc k xs)) = min n (length xs)"
  by (simp add: limit_def sort_desc_def min.commute)

subsection \<open>The handlers unfolded\<close>

lemma getHomePage_eq:
  "getHomePage e userId s =
     (case fault e Activity_find of
        Some m \<Rightarrow> Json 500 (Failure (StoreError m))
      | None \<Rightarrow> (case fault e Message_countDocuments of
          Some m \<Rightarrow> Json 500 (Failure (StoreError m))
        | None \<Rightarrow> (case fault e Content_find of
            Some m \<Rightarrow> Json 500 (Failure (StoreError m))
          | None \<Rightarrow> (case traverse announcement_of (recentContent s) of
              Inl err \<Rightarrow> Json 500 (Failure err)
            | Inr anns \<Rightarrow> Json 200 (Success
                \<lparr>recentActivity =
                   recentActivities userId (snd (logActivity e userId T_view (js ''dashboard home'') s)),
                 quickStats = \<lparr>notifications = 5, unread_messages = unreadMessages userId s,
                               tasks = 8\<rparr>,
                 announcements = anns\<rparr>)))),
      snd (logActivity e userId T_view (js ''dashboard home'') s))"
  by (simp add: getHomePage_def handler_def sbind_def find_in_def lift_def ret_def respond_def
      logActivity_eq recentContent_def unreadMessages_def recentActivities_def
      split: option.splits sum.splits)

lemma getSearchPage_empty:
  "\<not> truthy q \<Longrightarrow> getSearchPage e userId q s =
     (case fault e Search_find of
        Some m \<Rightarrow> Json 500 (Failure (StoreError m))
      | None \<Rightarrow> (case fault e Search_aggregate of
          Some m \<Rightarrow> Json 500 (Failure (StoreError m))
        | None \<Rightarrow> Json 200 (Success
            \<lparr>recentSearches = map query (recent_searches userId s),
             popularSearches = map fst (popular_searches s),
             search_results = []\<rparr>)),
      s)"
  by (simp add: getSearchPage_def handler_def sbind_def find_in_def lift_def ret_def
      respond_def split: option.splits sum.splits)

lemma getSearchPage_query:
  assumes "truthy q"
  shows "getSearchPage e userId q s =
    (case fault e Search_create of
       Some m \<Rightarrow> (Json 500 (Failure (StoreError m)),
                  snd (logActivity e userId T_search (text_of q) s))
     | None \<Rightarrow>
        (case fault e Search_find of
           Some m \<Rightarrow> (Json 500 (Failure (StoreError m)),
                      (snd (logActivity e userId T_search (text_of q) s))
                        \<lparr>Search := Search s @ [new_search e userId (text_of q)]\<rparr>)
         | None \<Rightarrow>
        (case fault e Search_aggregate of
           Some m \<Rightarrow> (Json 500 (Failure (StoreError m)),
                      (snd (logActivity e userId T_search (text_of q) s))
                        \<lparr>Search := Search s @ [new_search e userId (text_of q)]\<rparr>)
         | None \<Rightarrow>
        (case regex e (text_of q) of
           None \<Rightarrow> (Json 500 (Failure SyntaxError),
                      (snd (logActivity e userId T_search (text_of q) s))
                        \<lparr>Search := Search s @ [new_search e userId (text_of q)]\<rparr>)
         | Some rx \<Rightarrow>
        (case fault e Content_find of
           Some m \<Rightarrow> (Json 500 (Failure (StoreError m)),
                      (snd (logActivity e userId T_search (text_of q) s))
                        \<lparr>Search := Search s @ [new_search e userId (text_of q)]\<rparr>)
         | None \<Rightarrow>
        (case fault e User_find of
           Some m \<Rightarrow> (Json 500 (Failure (StoreError m)),
                      (snd (logActivity e userId T_search (text_of q) s))
                        \<lparr>Search := Search s @ [new_search e userId (text_of q)]\<rparr>)
         | None \<Rightarrow>
        (case fault e Search_findOneAndUpdate of
           Some m \<Rightarrow> (Json 500 (Failure (StoreError m)),
                      (snd (logActivity e userId T_search (text_of q) s))
                        \<lparr>Search := Search s @ [new_search e userId (text_of q)]\<rparr>)
         | None \<Rightarrow>
            (Json 200 (Success
               \<lparr>recentSearches = map query (recent_searches userId
                   (s\<lparr>Search := Search s @ [new_search e userId (text_of q)]\<rparr>)),
                popularSearches = map fst (popular_searches
                   (s\<lparr>Search := Search s @ [new_search e userId (text_of q)]\<rparr>)),
                search_results = found rx (text_of q) s\<rparr>),
             (snd (logActivity e userId T_search (text_of q) s))
               \<lparr>Search := update_first (\<lambda>r. search_user r = userId \<and> query r = text_of q)
                   (\<lambda>r. r\<lparr>results := length (found rx (text_of q) s)\<rparr>)
                   (Search s @ [new_search e userId (text_of q)])\<rparr>))))))))"
  using assms
  by (simp add: getSearchPage_def handler_def sbind_def find_in_def lift_def ret_def
      respond_def logActivity_eq search_for_def Search_new_def set_result_count_def write_to_def
      compile_def found_def contentResults_def userResults_def recent_searches_def
      popular_searches_def Let_def
      split: option.splits sum.splits)

lemma getInbox_eq:
  "getInbox e userId s =
     (case fault e Message_find of
        Some m \<Rightarrow> Json 500 (Failure (StoreError m))
      | None \<Rightarrow> (case traverse format_message (inbox_page userId s) of
                   Inl err \<Rightarrow> Json 500 (Failure err)
                 | Inr fm \<Rightarrow> Json 200 (Success
                     \<lparr>unreadCount = length (filter (\<lambda>p. \<not> isRead (fst p)) (inbox_page userId s)),
                      messages = fm\<rparr>)),
      snd (logActivity e userId T_view (js ''inbox'') s))"
  by (simp add: getInbox_def handler_def sbind_def find_in_def lift_def ret_def respond_def
      logActivity_eq inbox_page_def inbox_messages_def populate_def Let_def
      split: option.splits sum.splits)

lemma getForYouContent_eq:
  "getForYouContent e userId s =
     (case fault e Activity_find of
        Some m \<Rightarrow> Json 500 (Failure (StoreError m))
      | None \<Rightarrow> (case fault e Search_find of
          Some m \<Rightarrow> Json 500 (Failure (StoreError m))
        | None \<Rightarrow> (case traverse (compile e) (map query (searchTerms userId s)) of
            Inl err \<Rightarrow> Json 500 (Failure err)
          | Inr rxs \<Rightarrow> (case fault e Content_find of
              Some m \<Rightarrow> Json 500 (Failure (StoreError m))
            | None \<Rightarrow> (case fault e User_find of
                Some m \<Rightarrow> Json 500 (Failure (StoreError m))
              | None \<Rightarrow> (case fault e Content_aggregate of
                  Some m \<Rightarrow> Json 500 (Failure (StoreError m))
                | None \<Rightarrow> Json 200 (Success
                    \<lparr>recommendedContent = map format_recommendation (recommendedContent_of rxs s),
                     suggestedConnections =
                       map (format_connection e) (enumerate 0 (suggestedUsers userId s)),
                     trendingTopics = map fst (trendingTags s)\<rparr>)))))),
      snd (logActivity e userId T_view (js ''for you content'') s))"
  by (simp add: getForYouContent_def handler_def sbind_def find_in_def lift_def ret_def
      respond_def logActivity_eq searchTerms_def recommendedContent_of_def suggestedUsers_def
      trendingTags_def Let_def
      split: option.splits sum.splits)

lemma populate_author_frame [simp]: "populate_author (s\<lparr>Activity := a\<rparr>) = populate_author s"
  by (rule ext) (simp add: populate_author_def populate_def split: option.splits)

lemma getLiveContent_eq:
  "getLiveContent e userId s =
     (case fault e Content_find of
        Some m \<Rightarrow> Json 500 (Failure (StoreError m))
      | None \<Rightarrow> (case fault e Content_find_upcoming of
          Some m \<Rightarrow> Json 500 (Failure (StoreError m))
        | None \<Rightarrow> (case fault e Content_find_recordings of
            Some m \<Rightarrow> Json 500 (Failure (StoreError m))
          | None \<Rightarrow> (case traverse format_recording
                            (map (populate_author s) (recent_recordings (clock e) s)) of
              Inl err \<Rightarrow> Json 500 (Failure err)
            | Inr recs \<Rightarrow> Json 200 (Success
                \<lparr>currentLiveEvents =
                   map (format_live e)
                     (enumerate 0 (map (populate_author s) (current_events (clock e) s))),
                 upcomingEvents =
                   map format_upcoming (map (populate_author s) (upcoming_events (clock e) s)),
                 recentRecordings = recs\<rparr>)))),
      snd (logActivity e userId T_view (js ''live content'') s))"
  by (simp add: getLiveContent_def handler_def sbind_def find_in_def lift_def ret_def
      respond_def logActivity_eq current_events_def upcoming_events_def recent_recordings_def
      Let_def
      split: option.splits sum.splits)

subsection \<open>Home page\<close>

lemma announcement_of_error: "announcement_of c = Inl err \<Longrightarrow> err = TypeError"
  by (auto simp: announcement_of_def excerpt_def bnd_def split: if_splits option.splits)

lemma announcement_of_undefined:
  "\<not> truthy (description c) \<Longrightarrow> content_body c = None \<Longrightarrow> announcement_of c = Inl TypeError"
  by (simp add: announcement_of_def excerpt_def bnd_def)

subsection \<open>Search page\<close>

lemma sublist_matchReason_content: "sublist q (matchReason (format_content_result q c))"
  unfolding format_content_result_def search_result.sel
  by (metis sublist_appendI append.assoc)

lemma sublist_matchReason_user: "sublist q (matchReason (format_user_result q u))"
  unfolding format_user_result_def search_result.sel
  by (metis sublist_appendI append.assoc)

lemma found_props:
  "length (found rx q s) \<le> 15"
  "\<forall>r\<in>set (found rx q s). sublist q (matchReason r)"
  "\<exists>cs us. found rx q s = cs @ us \<and> length cs \<le> 10 \<and> length us \<le> 5 \<and>
      (\<forall>r\<in>set cs. is_content r) \<and> (\<forall>r\<in>set us. is_user r)"
proof -
  have c: "length (contentResults rx s) \<le> 10" by (simp add: contentResults_def limit_def)
  have u: "length (userResults rx s) \<le> 5" by (simp add: userResults_def limit_def)
  from c u show "length (found rx q s) \<le> 15" by (simp add: found_def)
  show "\<forall>r\<in>set (found rx q s). sublist q (matchReason r)"
    by (auto simp: found_def sublist_matchReason_content sublist_matchReason_user)
  have "found rx q s = map (format_content_result q) (contentResults rx s) @
          map (format_user_result q) (userResults rx s) \<and>
        length (map (format_content_result q) (contentResults rx s)) \<le> 10 \<and>
        length (map (format_user_result q) (userResults rx s)) \<le> 5 \<and>
        (\<forall>r\<in>set (map (format_content_result q) (contentResults rx s)). is_content r) \<and>
        (\<forall>r\<in>set (map (format_user_result q) (userResults rx s)). is_user r)"
    using c u by (auto simp: found_def format_content_result_def format_user_result_def)
  then show "\<exists>cs us. found rx q s = cs @ us \<and> length cs \<le> 10 \<and> length us \<le> 5 \<and>
      (\<forall>r\<in>set cs. is_content r) \<and> (\<forall>r\<in>set us. is_user r)" by blast
qed

lemma popular_searches_props:
  "length (popular_searches s) = min 5 (card (query ` set (Search s)))"
  "fst ` set (popular_searches s) \<subseteq> query ` set (Search s)"
proof -
  have "length (group_count (map query (Search s))) = card (query ` set (Search s))"
    by (simp add: group_count_def length_remdups_card_conv)
  then show "length (popular_searches s) = min 5 (card (query ` set (Search s)))"
    by (simp add: popular_searches_def top5_def length_limit_sort_desc)
  have "fst ` set (group_count (map query (Search s))) \<subseteq> query ` set (Search s)"
    by (auto simp: group_count_def)
  then show "fst ` set (popular_searches s) \<subseteq> query ` set (Search s)"
    using set_limit_sort_desc [of 5 "\<lambda>g. int (snd g)" "group_count (map query (Search s))"]
    unfolding popular_searches_def top5_def by blast
qed

subsection \<open>Inbox\<close>

lemma preview_of_eq:
  "preview_of c = (if length c > 100 then take 100 c @ js ''...'' else c)"
  by (simp add: preview_of_def substring_def)

lemma format_message_fields:
  "format_message (m, p) = Inr r \<Longrightarrow>
     preview r = preview_of (message_content m) \<and> inbox_id r = message_id m \<and>
     inbox_isRead r = isRead m"
  by (auto simp: format_message_def split: option.splits)

lemma inbox_page_format:
  assumes "traverse format_message (inbox_page userId s) = Inr fm"
  shows "map preview fm = map (\<lambda>m. preview_of (message_content m)) (inbox_messages userId s)"
    and "map inbox_id fm = map message_id (inbox_messages userId s)"
    and "map inbox_isRead fm = map isRead (inbox_messages userId s)"
proof -
  from assms have "map format_message (inbox_page userId s) = map Inr fm"
    by (simp add: traverse_Inr_iff)
  then have *: "map (\<lambda>m. format_message (m, populate s (sender m))) (inbox_messages userId s) = map Inr fm"
    by (simp add: inbox_page_def o_def)
  have len: "length fm = length (inbox_messages userId s)"
    using * by (metis length_map)
  have nth: "\<And>i. i < length fm \<Longrightarrow>
     format_message (inbox_messages userId s ! i, populate s (sender (inbox_messages userId s ! i))) = Inr (fm ! i)"
    using * len by (metis (no_types, lifting) nth_map)
  have fld: "\<And>i. i < length fm \<Longrightarrow>
     preview (fm ! i) = preview_of (message_content (inbox_messages userId s ! i)) \<and>
     inbox_id (fm ! i) = message_id (inbox_messages userId s ! i) \<and>
     inbox_isRead (fm ! i) = isRead (inbox_messages userId s ! i)"
  proof -
    fix i assume "i < length fm"
    from format_message_fields [OF nth [OF this]]
    show "preview (fm ! i) = preview_of (message_content (inbox_messages userId s ! i)) \<and>
     inbox_id (fm ! i) = message_id (inbox_messages userId s ! i) \<and>
     inbox_isRead (fm ! i) = isRead (inbox_messages userId s ! i)" .
  qed
  show "map preview fm = map (\<lambda>m. preview_of (message_content m)) (inbox_messages userId s)"
    by (rule nth_equalityI) (simp_all add: len fld)
  show "map inbox_id fm = map message_id (inbox_messages userId s)"
    by (rule nth_equalityI) (simp_all add: len fld)
  show "map inbox_isRead fm = map isRead (inbox_messages userId s)"
    by (rule nth_equalityI) (simp_all add: len fld)
qed

subsection \<open>Live content\<close>

lemma set_upcoming_events:
  "set (upcoming_events now s) \<subseteq> {c \<in> set (Content s). is_upcoming now c}"
  "length (filter (is_upcoming now) (Content s)) \<le> 5 \<Longrightarrow>
     set (upcoming_events now s) = {c \<in> set (Content s). is_upcoming now c}"
proof -
  let ?xs = "sort_key (\<lambda>c. time_key (startTime c)) (filter (is_upcoming now) (Content s))"
  have "set (take 5 ?xs) \<subseteq> set ?xs" by (rule set_take_subset)
  then show "set (upcoming_events now s) \<subseteq> {c \<in> set (Content s). is_upcoming now c}"
    by (auto simp: upcoming_events_def limit_def sort_asc_def)
  assume "length (filter (is_upcoming now) (Content s)) \<le> 5"
  then have "take 5 ?xs = ?xs" by simp
  then show "set (upcoming_events now s) = {c \<in> set (Content s). is_upcoming now c}"
    by (auto simp: upcoming_events_def limit_def sort_asc_def)
qed

lemma set_recent_recordings:
  "set (recent_recordings now s) \<subseteq> {c \<in> set (Content s). is_recording now c}"
  "length (filter (is_recording now) (Content s)) \<le> 5 \<Longrightarrow>
     set (recent_recordings now s) = {c \<in> set (Content s). is_recording now c}"
proof -
  let ?xs = "sort_key (\<lambda>c. - time_key (endTime c)) (filter (is_recording now) (Content s))"
  have "set (take 5 ?xs) \<subseteq> set ?xs" by (rule set_take_subset)
  then show "set (recent_recordings now s) \<subseteq> {c \<in> set (Content s). is_recording now c}"
    by (auto simp: recent_recordings_def limit_def sort_desc_def)
  assume "length (filter (is_recording now) (Content s)) \<le> 5"
  then have "take 5 ?xs = ?xs" by simp
  then show "set (recent_recordings now s) = {c \<in> set (Content s). is_recording now c}"
    by (auto simp: recent_recordings_def limit_def sort_desc_def)
qed

lemma set_current_events:
  "set (current_events now s) = {c \<in> set (Content s). is_current now c}"
  by (auto simp: current_events_def)

lemma map_format_live:
  "map live_id (map (format_live e) (enumerate n ps)) = map (\<lambda>p. content_id (fst p)) ps"
  "map live_host (map (format_live e) (enumerate n ps)) = map (\<lambda>p. host_of (snd p)) ps"
  by (induction ps arbitrary: n) (simp_all add: format_live_def split_def)

lemma map_format_upcoming:
  "map upcoming_id (map format_upcoming ps) = map (\<lambda>p. content_id (fst p)) ps"
  "map upcoming_host (map format_upcoming ps) = map (\<lambda>p. host_of (snd p)) ps"
  by (simp_all add: format_upcoming_def split_def)

lemma format_recording_id: "format_recording p = Inr r \<Longrightarrow> recording_id r = content_id (fst p)"
  by (auto simp: format_recording_def split: prod.splits option.splits)

lemma traverse_format_recording:
  "traverse format_recording ps = Inr rs \<Longrightarrow> map recording_id rs = map (\<lambda>p. content_id (fst p)) ps"
proof (induction ps arbitrary: rs)
  case Nil
  then show ?case by simp
next
  case (Cons p ps)
  then show ?case
    by (auto simp: bnd_def format_recording_id split: sum.splits)
qed

lemma live_payload:
  assumes "fst (getLiveContent e userId s) = Json st (Success d)"
  shows "map live_id (currentLiveEvents d) = map content_id (current_events (clock e) s)"
    and "map upcoming_id (upcomingEvents d) = map content_id (upcoming_events (clock e) s)"
    and "map recording_id (recentRecordings d) = map content_id (recent_recordings (clock e) s)"
    and "map live_host (currentLiveEvents d) =
           map (\<lambda>c. host_of (snd (populate_author s c))) (current_events (clock e) s)"
    and "map upcoming_host (upcomingEvents d) =
           map (\<lambda>c. host_of (snd (populate_author s c))) (upcoming_events (clock e) s)"
proof -
  from assms have
    c: "currentLiveEvents d = map (format_live e)
          (enumerate 0 (map (populate_author s) (current_events (clock e) s)))" and
    u: "upcomingEvents d = map format_upcoming (map (populate_author s) (upcoming_events (clock e) s))" and
    r: "traverse format_recording (map (populate_author s) (recent_recordings (clock e) s)) =
          Inr (recentRecordings d)"
    by (auto simp: getLiveContent_eq split: option.splits sum.splits)
  show "map live_id (currentLiveEvents d) = map content_id (current_events (clock e) s)"
    unfolding c map_format_live by (simp add: o_def populate_author_def)
  show "map upcoming_id (upcomingEvents d) = map content_id (upcoming_events (clock e) s)"
    unfolding u map_format_upcoming by (simp add: o_def populate_author_def)
  show "map recording_id (recentRecordings d) = map content_id (recent_recordings (clock e) s)"
    using traverse_format_recording [OF r] by (simp add: o_def populate_author_def)
  show "map live_host (currentLiveEvents d) =
           map (\<lambda>c. host_of (snd (populate_author s c))) (current_events (clock e) s)"
    unfolding c map_format_live by (simp add: o_def)
  show "map upcoming_host (upcomingEvents d) =
           map (\<lambda>c. host_of (snd (populate_author s c))) (upcoming_events (clock e) s)"
    unfolding u map_format_upcoming by (simp add: o_def)
qed

subsection \<open>Failing store accesses\<close>

lemma logging_fault_simps:
  "op \<noteq> Activity_create \<Longrightarrow> fault (logging_fault e x) op = fault e op"
  "regex (logging_fault e x) = regex e" "clock (logging_fault e x) = clock e"
  "random (logging_fault e x) = random e"
  by (simp_all add: logging_fault_def)

lemma compile_logging_fault: "compile (logging_fault e x) = compile e"
  by (rule ext) (simp add: compile_def logging_fault_simps)

lemma home_outcome:
  "outcome (fst (getHomePage (logging_fault e x) userId s)) = outcome (fst (getHomePage e userId s))"
  by (simp add: getHomePage_eq outcome_def logging_fault_simps split: option.splits sum.splits)

lemma inbox_outcome:
  "outcome (fst (getInbox (logging_fault e x) userId s)) = outcome (fst (getInbox e userId s))"
  by (simp add: getInbox_eq outcome_def logging_fault_simps split: option.splits sum.splits)

lemma for_you_outcome:
  "outcome (fst (getForYouContent (logging_fault e x) userId s)) =
   outcome (fst (getForYouContent e userId s))"
  by (simp add: getForYouContent_eq outcome_def logging_fault_simps compile_logging_fault
      split: option.splits sum.splits)

lemma live_outcome:
  "outcome (fst (getLiveContent (logging_fault e x) userId s)) =
   outcome (fst (getLiveContent e userId s))"
  by (simp add: getLiveContent_eq outcome_def logging_fault_simps split: option.splits sum.splits)

lemma search_outcome:
  "outcome (fst (getSearchPage (logging_fault e x) userId q s)) =
   outcome (fst (getSearchPage e userId q s))"
proof (cases "truthy q")
  case True
  then show ?thesis
    by (simp add: getSearchPage_query outcome_def logging_fault_simps split: option.splits)
next
  case False
  then show ?thesis
    by (simp add: getSearchPage_empty outcome_def logging_fault_simps split: option.splits)
qed

lemma home_abort:
  "first_fault e [Activity_find, Message_countDocuments, Content_find] = Some m \<Longrightarrow>
     fst (getHomePage e userId s) = Json 500 (Failure (StoreError m))"
  by (auto simp: getHomePage_eq split: option.splits)

lemma inbox_abort:
  "first_fault e [Message_find] = Some m \<Longrightarrow>
     fst (getInbox e userId s) = Json 500 (Failure (StoreError m))"
  by (auto simp: getInbox_eq split: option.splits)

lemma for_you_abort_early:
  "first_fault e [Activity_find, Search_find] = Some m \<Longrightarrow>
     fst (getForYouContent e userId s) = Json 500 (Failure (StoreError m))"
  by (auto simp: getForYouContent_eq split: option.splits)

lemma compile_all:
  "\<forall>q\<in>set qs. regex e q \<noteq> None \<Longrightarrow> \<exists>rxs. traverse (compile e) qs = Inr rxs"
  by (induction qs) (auto simp: bnd_def compile_def)

lemma for_you_abort:
  assumes "\<forall>r\<in>set (searchTerms userId s). regex e (query r) \<noteq> None"
    and "first_fault e [Activity_find, Search_find, Content_find, User_find, Content_aggregate] = Some m"
  shows "fst (getForYouContent e userId s) = Json 500 (Failure (StoreError m))"
proof -
  from assms(1) compile_all [of "map query (searchTerms userId s)" e]
  obtain rxs where "traverse (compile e) (map query (searchTerms userId s)) = Inr rxs" by auto
  with assms(2) show ?thesis
    by (auto simp: getForYouContent_eq split: option.splits)
qed

lemma live_abort:
  "first_fault e [Content_find, Content_find_upcoming, Content_find_recordings] = Some m \<Longrightarrow>
     fst (getLiveContent e userId s) = Json 500 (Failure (StoreError m))"
  by (auto simp: getLiveContent_eq split: option.splits)

lemma search_abort_empty:
  "\<not> truthy q \<Longrightarrow> first_fault e [Search_find, Search_aggregate] = Some m \<Longrightarrow>
     fst (getSearchPage e userId q s) = Json 500 (Failure (StoreError m))"
  by (auto simp: getSearchPage_empty split: option.splits)

lemma search_abort_early:
  "truthy q \<Longrightarrow> first_fault e [Search_create, Search_find, Search_aggregate] = Some m \<Longrightarrow>
     fst (getSearchPage e userId q s) = Json 500 (Failure (StoreError m))"
  by (auto simp: getSearchPage_query split: option.splits)

lemma search_abort:
  "truthy q \<Longrightarrow> regex e (text_of q) \<noteq> None \<Longrightarrow>
   first_fault e [Search_create, Search_find, Search_aggregate, Content_find, User_find,
                  Search_findOneAndUpdate] = Some m \<Longrightarrow>
     fst (getSearchPage e userId q s) = Json 500 (Failure (StoreError m))"
  by (auto simp: getSearchPage_query split: option.splits)

subsection \<open>The examples evaluated\<close>

lemma truthy_go: "truthy (Some (js ''go''))"
  by (simp add: truthy_def js_def)

lemma fault_env0: "fault env0 op = None"
  by (simp add: env0_def)

lemma regex_go: "regex env0 (js ''go'') = Some (\<lambda>t. sublist (js ''go'') t)"
  by (simp add: env0_def plain_regex_def)

lemma found_go:
  "found (\<lambda>t. sublist (js ''go'') t) (js ''go'') search_store =
     [ContentResult 20 (js ''go tips'') None
        (js ''Content matches '' @ [dquote] @ js ''go'' @ [dquote])]"
  by (simp add: found_def contentResults_def userResults_def limit_def search_store_def
      content_matches_def user_matches_def go_article_def ann_def bob_def
      format_content_result_def js_def sublist_code prefix_code)

lemma getSearchPage_ex:
  "getSearchPage env0 7 (Some (js ''go'')) search_store =
     (Json 200 (Success search_expected),
      search_store\<lparr>Activity := [\<lparr>activity_id = 900, activity_user = 7, activity_type = T_search,
                     details = js ''go'', activity_timestamp = 1000\<rparr>],
                   Search := [old_search\<lparr>results := 1\<rparr>, new_search env0 7 (js ''go'')]\<rparr>)"
  apply (simp add: getSearchPage_query [OF truthy_go] text_of_def fault_env0 regex_go found_go)
  apply (simp add: env0_def logActivity_eq search_store_def search_expected_def
      recent_searches_def popular_searches_def top5_def group_count_def limit_def sort_desc_def
      new_search_def old_search_def)
  done

lemma inbox_messages_ex: "inbox_messages 7 inbox_store = [short_message, long_message]"
  by (simp add: inbox_messages_def inbox_store_def limit_def sort_desc_def
      long_message_def short_message_def)

lemma inbox_page_ex:
  "inbox_page 7 inbox_store = [(short_message, Some bob), (long_message, Some bob)]"
  by (simp add: inbox_page_def inbox_messages_ex populate_def)
     (simp add: inbox_store_def long_message_def short_message_def ann_def bob_def)

lemma getInbox_ex: "fst (getInbox env0 7 inbox_store) = Json 200 (Success inbox_expected)"
  by (simp add: getInbox_eq inbox_page_ex env0_def bnd_def format_message_def preview_of_eq
      inbox_expected_def)
     (simp add: long_message_def short_message_def bob_def)

lemma searchTerms_ex: "map query (searchTerms 7 for_you_store) = replicate 10 (js ''go'')"
  by (simp add: searchTerms_def for_you_store_def limit_def early_search_def rust_search_def
      numeral_eq_Suc)

lemma most_recent_ex: "hd (most_recent_searches 10 7 for_you_store) = rust_search"
  by (simp add: most_recent_searches_def for_you_store_def limit_def sort_desc_def
      early_search_def rust_search_def)

lemma compile_go: "compile env0 (js ''go'') = Inr (\<lambda>t. sublist (js ''go'') t)"
  by (simp add: compile_def regex_go)

lemma compile_go_all:
  "traverse (compile env0) (replicate n (js ''go'')) = Inr (replicate n (\<lambda>t. sublist (js ''go'') t))"
  by (induction n) (simp_all add: bnd_def compile_go)

lemma recommended_ex:
  "recommendedContent_of (replicate 10 (\<lambda>t. sublist (js ''go'') t)) for_you_store = []"
  by (simp add: recommendedContent_of_def recommended_def for_you_store_def rust_book_def
      limit_def sort_desc_def list_ex_iff js_def sublist_code prefix_code)

lemma getForYouContent_ex:
  "fst (getForYouContent env0 7 for_you_store) = Json 200 (Success
     \<lparr>recommendedContent = [],
      suggestedConnections =
        [\<lparr>connection_id = 8, connection_name = js ''Bob'', connection_email = js ''bob@x.io'',
          mutualConnections = 3\<rparr>],
      trendingTopics = [js ''rust'']\<rparr>)"
  apply (simp add: getForYouContent_eq fault_env0 searchTerms_ex compile_go_all
      recommended_ex)
  apply (simp add: suggestedUsers_def trendingTags_def top5_def group_count_def limit_def
      sort_desc_def for_you_store_def rust_book_def ann_def bob_def format_connection_def env0_def)
  done

lemma live_env_simps: "fault live_env op = None" "clock live_env = 7200000"
  "random live_env i = 7 * i + 3"
  by (simp_all add: live_env_def env0_def)

lemma live_queries_ex:
  "current_events 7200000 live_store = [workshop]"
  "upcoming_events 7200000 live_store = [meetup]"
  "recent_recordings 7200000 live_store = [talk_by_ann]"
  by (simp_all add: current_events_def upcoming_events_def recent_recordings_def live_store_def
      is_current_def is_upcoming_def is_recording_def limit_def sort_asc_def sort_desc_def
      workshop_def talk_by_ann_def meetup_def)

lemma populate_ex:
  "populate_author live_store workshop = (workshop, Some ann)"
  "populate_author live_store talk_by_ann = (talk_by_ann, Some ann)"
  "populate_author live_store meetup = (meetup, None)"
  by (simp_all add: populate_author_def populate_def live_store_def workshop_def talk_by_ann_def
      meetup_def ann_def)

lemma format_talk:
  "format_recording (talk_by_ann, Some ann) = Inr talk_recording"
  by (simp add: format_recording_def bnd_def minutes_def talk_by_ann_def talk_recording_def)

lemma getLiveContent_ex:
  "fst (getLiveContent live_env 7 live_store) = Json 200 (Success live_expected)"
  apply (simp add: getLiveContent_eq live_env_simps live_queries_ex populate_ex format_talk bnd_def)
  apply (simp add: format_live_def format_upcoming_def format_recording_def bnd_def host_of_def
      minutes_def workshop_def talk_by_ann_def meetup_def ann_def live_expected_def
      talk_recording_def live_env_simps js_def)
  done

lemma getLiveContent_ending:
  "fst (getLiveContent live_env 7 ending_store) = Json 200 (Success
     \<lparr>currentLiveEvents = [], upcomingEvents = [], recentRecordings = []\<rparr>)"
  by (simp add: getLiveContent_eq live_env_simps current_events_def upcoming_events_def
      recent_recordings_def ending_store_def live_store_def ending_now_def
      is_current_def is_upcoming_def is_recording_def limit_def sort_asc_def sort_desc_def)

lemma getLiveContent_recorded:
  "fst (getLiveContent live_env 7 recorded_store) = Json 200 (Success
     \<lparr>currentLiveEvents = [], upcomingEvents = [], recentRecordings = [talk_recording]\<rparr>)"
  "fst (getLiveContent live_env 7 unauthored_store) = Json 200 (Success
     \<lparr>currentLiveEvents = [], upcomingEvents = [], recentRecordings = [talk_recording]\<rparr>)"
  by (simp_all add: getLiveContent_eq live_env_simps current_events_def upcoming_events_def
      recent_recordings_def recorded_store_def unauthored_store_def live_store_def
      talk_by_ann_def talk_no_author_def
      is_current_def is_upcoming_def is_recording_def limit_def sort_asc_def sort_desc_def
      populate_author_def populate_def format_recording_def bnd_def minutes_def
      talk_recording_def)

lemma format_later: "format_upcoming (later_event i, None) = later_upcoming i"
  by (simp add: format_upcoming_def later_event_def later_upcoming_def host_of_def minutes_def)

lemma populate_later: "populate_author crowded_store (later_event i) = (later_event i, None)"
  by (simp add: populate_author_def later_event_def)

lemma crowded_queries:
  "current_events 7200000 crowded_store = []"
  "upcoming_events 7200000 crowded_store = map later_event [2, 3, 4, 5, 6]"
  "recent_recordings 7200000 crowded_store = []"
  by (simp_all add: current_events_def upcoming_events_def recent_recordings_def
      crowded_store_def is_current_def is_upcoming_def is_recording_def limit_def sort_asc_def
      sort_desc_def later_event_def time_key_def)

lemma getLiveContent_crowded:
  "fst (getLiveContent live_env 7 crowded_store) = Json 200 (Success
     \<lparr>currentLiveEvents = [], upcomingEvents = map later_upcoming [2, 3, 4, 5, 6],
      recentRecordings = []\<rparr>)"
  by (simp add: getLiveContent_eq live_env_simps crowded_queries populate_later format_later)

lemma getLiveContent_inverted:
  "fst (getLiveContent live_env 7 inverted_store) = Json 200 (Success
     \<lparr>currentLiveEvents = [],
      upcomingEvents =
        [\<lparr>upcoming_id = 34, upcoming_title = js ''inverted'', upcoming_host = js ''System'',
          scheduledTime = Some 9000000, upcoming_duration = Some (- 90),
          registerUrl = (js ''/register/'', 34)\<rparr>],
      recentRecordings =
        [\<lparr>recording_id = 34, recording_title = js ''inverted'', recordedDate = 0,
          recording_duration = Some (- 90), viewUrl = (js ''/recordings/'', 34)\<rparr>]\<rparr>)"
  by (simp add: getLiveContent_eq live_env_simps current_events_def upcoming_events_def
      recent_recordings_def inverted_store_def live_store_def inverted_def
      is_current_def is_upcoming_def is_recording_def limit_def sort_asc_def sort_desc_def
      populate_author_def format_upcoming_def format_recording_def bnd_def minutes_def
      host_of_def)

section \<open>Claims\<close>

text \<open>
  C1, as amended. For a live content item with both times present, whose start is not
  after its end and whose end is not the current instant: it is among the current events
  exactly when \<open>startTime \<le> now < endTime\<close>; it is among the upcoming events only when
  \<open>startTime > now\<close>, and exactly then when at most 5 items are upcoming; it is among
  the recordings only when \<open>endTime < now\<close>, and exactly then when at most 5 items have
  ended; it is never in two of the three lists, and it is in one of them when neither
  cap is exceeded. The three lists of a returned payload are these lists, id by id.
\<close>

theorem live_classification:
  assumes "c \<in> set (Content s)" and "isLive c"
    and "startTime c = Some a" and "endTime c = Some b" and "a \<le> b" and "b \<noteq> clock e"
  shows "(c \<in> set (current_events (clock e) s) \<longleftrightarrow> a \<le> clock e \<and> clock e < b) \<and>
         (c \<in> set (upcoming_events (clock e) s) \<longrightarrow> clock e < a) \<and>
         (c \<in> set (recent_recordings (clock e) s) \<longrightarrow> b < clock e) \<and>
         (length (filter (is_upcoming (clock e)) (Content s)) \<le> 5 \<longrightarrow>
            (c \<in> set (upcoming_events (clock e) s) \<longleftrightarrow> clock e < a)) \<and>
         (length (filter (is_recording (clock e)) (Content s)) \<le> 5 \<longrightarrow>
            (c \<in> set (recent_recordings (clock e) s) \<longleftrightarrow> b < clock e)) \<and>
         \<not> (c \<in> set (current_events (clock e) s) \<and> c \<in> set (upcoming_events (clock e) s)) \<and>
         \<not> (c \<in> set (current_events (clock e) s) \<and> c \<in> set (recent_recordings (clock e) s)) \<and>
         \<not> (c \<in> set (upcoming_events (clock e) s) \<and> c \<in> set (recent_recordings (clock e) s)) \<and>
         (length (filter (is_upcoming (clock e)) (Content s)) \<le> 5 \<and>
          length (filter (is_recording (clock e)) (Content s)) \<le> 5 \<longrightarrow>
            c \<in> set (current_events (clock e) s) \<or> c \<in> set (upcoming_events (clock e) s) \<or>
            c \<in> set (recent_recordings (clock e) s)) \<and>
         (fst (getLiveContent e userId s) = Json st (Success d) \<longrightarrow>
            map live_id (currentLiveEvents d) = map content_id (current_events (clock e) s) \<and>
            map upcoming_id (upcomingEvents d) = map content_id (upcoming_events (clock e) s) \<and>
            map recording_id (recentRecordings d) =
              map content_id (recent_recordings (clock e) s))"
proof -
  have cur: "is_current (clock e) c \<longleftrightarrow> a \<le> clock e \<and> clock e < b"
    using assms by (simp add: is_current_def)
  have up: "is_upcoming (clock e) c \<longleftrightarrow> clock e < a"
    using assms by (simp add: is_upcoming_def)
  have rec: "is_recording (clock e) c \<longleftrightarrow> b < clock e"
    using assms by (simp add: is_recording_def)
  have 1: "c \<in> set (current_events (clock e) s) \<longleftrightarrow> a \<le> clock e \<and> clock e < b"
    using assms(1) cur by (simp add: set_current_events)
  have 2: "c \<in> set (upcoming_events (clock e) s) \<longrightarrow> clock e < a"
    using set_upcoming_events(1) [of "clock e" s] up by auto
  have 3: "c \<in> set (recent_recordings (clock e) s) \<longrightarrow> b < clock e"
    using set_recent_recordings(1) [of "clock e" s] rec by auto
  have 4: "length (filter (is_upcoming (clock e)) (Content s)) \<le> 5 \<longrightarrow>
            (c \<in> set (upcoming_events (clock e) s) \<longleftrightarrow> clock e < a)"
    using set_upcoming_events(2) [of "clock e" s] up assms(1) by auto
  have 5: "length (filter (is_recording (clock e)) (Content s)) \<le> 5 \<longrightarrow>
            (c \<in> set (recent_recordings (clock e) s) \<longleftrightarrow> b < clock e)"
    using set_recent_recordings(2) [of "clock e" s] rec assms(1) by auto
  have 6: "fst (getLiveContent e userId s) = Json st (Success d) \<longrightarrow>
            map live_id (currentLiveEvents d) = map content_id (current_events (clock e) s) \<and>
            map upcoming_id (upcomingEvents d) = map content_id (upcoming_events (clock e) s) \<and>
            map recording_id (recentRecordings d) =
              map content_id (recent_recordings (clock e) s)"
    using live_payload(1,2,3) [of e userId s st d] by blast
  have 7: "a \<le> clock e \<and> clock e < b \<or> clock e < a \<or> b < clock e"
    using assms(5,6) by linarith
  show ?thesis
    using 1 2 3 4 5 6 7 assms(5) by (intro conjI) (simp_all, linarith+)
qed

theorem live_classification_witness:
  "workshop \<in> set (Content live_store) \<and> isLive workshop \<and>
   startTime workshop = Some 3600000 \<and> endTime workshop = Some 10800000 \<and>
   (3600000::int) \<le> 10800000 \<and> (10800000::int) \<noteq> clock live_env \<and>
   length (filter (is_upcoming (clock live_env)) (Content live_store)) \<le> 5 \<and>
   length (filter (is_recording (clock live_env)) (Content live_store)) \<le> 5 \<and>
   fst (getLiveContent live_env 7 live_store) = Json 200 (Success live_expected) \<and>
   workshop \<in> set (current_events (clock live_env) live_store) \<and>
   workshop \<notin> set (upcoming_events (clock live_env) live_store) \<and>
   workshop \<notin> set (recent_recordings (clock live_env) live_store) \<and>
   map live_id (currentLiveEvents live_expected) =
     map content_id (current_events (clock live_env) live_store)"
proof -
  have h1: "workshop \<in> set (Content live_store)" by (simp add: live_store_def)
  have h2: "isLive workshop" by (simp add: workshop_def)
  have h3: "startTime workshop = Some 3600000" by (simp add: workshop_def)
  have h4: "endTime workshop = Some 10800000" by (simp add: workshop_def)
  have h5: "(3600000::int) \<le> 10800000" by simp
  have h6: "(10800000::int) \<noteq> clock live_env" by (simp add: live_env_simps)
  have h7: "length (filter (is_upcoming (clock live_env)) (Content live_store)) \<le> 5"
    by (simp add: live_store_def)
  have h8: "length (filter (is_recording (clock live_env)) (Content live_store)) \<le> 5"
    by (simp add: live_store_def)
  have h9: "fst (getLiveContent live_env 7 live_store) = Json 200 (Success live_expected)"
    by (rule getLiveContent_ex)
  have now: "(3600000::int) \<le> clock live_env \<and> clock live_env < 10800000"
    by (simp add: live_env_simps)
  from live_classification [OF h1 h2 h3 h4 h5 h6, of 7 200 live_expected] h9 now
  have "workshop \<in> set (current_events (clock live_env) live_store) \<and>
    workshop \<notin> set (upcoming_events (clock live_env) live_store) \<and>
    workshop \<notin> set (recent_recordings (clock live_env) live_store) \<and>
    map live_id (currentLiveEvents live_expected) =
      map content_id (current_events (clock live_env) live_store)"
    by blast
  with h1 h2 h3 h4 h5 h6 h7 h8 h9 show ?thesis by blast
qed

text \<open>
  C1 as stated fails in three ways. A live item that started an hour ago and ends at
  the current instant is returned in no list. Of six upcoming items the one starting
  last is returned in no list. A live item whose end lies before the current instant
  and whose start lies after it is returned both as upcoming and as a recording.
\<close>

theorem live_item_in_no_list_or_in_two:
  "ending_now \<in> set (Content ending_store) \<and> isLive ending_now \<and>
   startTime ending_now = Some 3600000 \<and> endTime ending_now = Some (clock live_env) \<and>
   fst (getLiveContent live_env 7 ending_store) = Json 200 (Success
     \<lparr>currentLiveEvents = [], upcomingEvents = [], recentRecordings = []\<rparr>) \<and>
   later_event 7 \<in> set (Content crowded_store) \<and> isLive (later_event 7) \<and>
   startTime (later_event 7) = Some 8000007 \<and> clock live_env < 8000007 \<and>
   fst (getLiveContent live_env 7 crowded_store) = Json 200 (Success
     \<lparr>currentLiveEvents = [], upcomingEvents = map later_upcoming [2, 3, 4, 5, 6],
      recentRecordings = []\<rparr>) \<and>
   inverted \<in> set (Content inverted_store) \<and> isLive inverted \<and>
   fst (getLiveContent live_env 7 inverted_store) = Json 200 (Success
     \<lparr>currentLiveEvents = [],
      upcomingEvents =
        [\<lparr>upcoming_id = 34, upcoming_title = js ''inverted'', upcoming_host = js ''System'',
          scheduledTime = Some 9000000, upcoming_duration = Some (- 90),
          registerUrl = (js ''/register/'', 34)\<rparr>],
      recentRecordings =
        [\<lparr>recording_id = 34, recording_title = js ''inverted'', recordedDate = 0,
          recording_duration = Some (- 90), viewUrl = (js ''/recordings/'', 34)\<rparr>]\<rparr>)"
  by (simp add: getLiveContent_ending getLiveContent_crowded getLiveContent_inverted)
     (simp add: ending_store_def ending_now_def live_env_simps crowded_store_def
      later_event_def inverted_store_def inverted_def)

text \<open>
  C2. The claim: the result count is written onto the most recent search record of the
  user with the query. At a store where the user already has a record for the query,
  \<open>findOneAndUpdate\<close> overwrites that older record (its count 3 becomes 1) and the
  record created by this request, which has the latest timestamp, keeps the default 0.
\<close>

theorem search_count_written_to_older_record:
  "fst (getSearchPage env0 7 (Some (js ''go'')) search_store) =
     Json 200 (Success search_expected) \<and>
   length (search_results search_expected) = 1 \<and>
   Search (snd (getSearchPage env0 7 (Some (js ''go'')) search_store)) =
     [old_search\<lparr>results := 1\<rparr>, new_search env0 7 (js ''go'')] \<and>
   timestamp old_search < timestamp (new_search env0 7 (js ''go'')) \<and>
   results (new_search env0 7 (js ''go'')) = 0"
  by (simp add: getSearchPage_ex)
     (simp add: search_expected_def old_search_def new_search_def env0_def)

text \<open>
  C3. The claim: the recommendations are built from the 10 most recent search records of
  the user. The query that fetches the search terms has a \<open>limit\<close> and no \<open>sort\<close>,
  so it returns the first 10 of the user's records in store order. At a store with 11
  records of the user, the latest of which asks for \<open>rust\<close>, and a content item titled
  \<open>rust book\<close>, the terms are the 10 earlier queries and nothing is recommended.
\<close>

theorem recommendations_from_earliest_searches:
  "map query (searchTerms 7 for_you_store) = replicate 10 (js ''go'') \<and>
   hd (most_recent_searches 10 7 for_you_store) = rust_search \<and>
   query rust_search = js ''rust'' \<and>
   rust_book \<in> set (Content for_you_store) \<and>
   sublist (js ''rust'') (title rust_book) \<and>
   fst (getForYouContent env0 7 for_you_store) = Json 200 (Success
     \<lparr>recommendedContent = [],
      suggestedConnections =
        [\<lparr>connection_id = 8, connection_name = js ''Bob'', connection_email = js ''bob@x.io'',
          mutualConnections = 3\<rparr>],
      trendingTopics = [js ''rust'']\<rparr>)"
  by (simp add: searchTerms_ex most_recent_ex getForYouContent_ex)
     (simp add: rust_search_def for_you_store_def rust_book_def js_def sublist_code prefix_code)

text \<open>
  C4, as amended. In a returned live payload every current event and every upcoming
  event carries as \<open>host\<close> the name of its author, and the literal \<open>System\<close> when the
  item has no author, the author is not a stored user, or the name is empty.
\<close>

theorem live_host_fallback:
  assumes "fst (getLiveContent e userId s) = Json st (Success d)"
  shows "map live_host (currentLiveEvents d) =
           map (\<lambda>c. case author c of
                       None \<Rightarrow> js ''System''
                     | Some a \<Rightarrow> (case populate s a of
                                   None \<Rightarrow> js ''System''
                                 | Some u \<Rightarrow> if name u = [] then js ''System'' else name u))
             (current_events (clock e) s) \<and>
         map upcoming_host (upcomingEvents d) =
           map (\<lambda>c. case author c of
                       None \<Rightarrow> js ''System''
                     | Some a \<Rightarrow> (case populate s a of
                                   None \<Rightarrow> js ''System''
                                 | Some u \<Rightarrow> if name u = [] then js ''System'' else name u))
             (upcoming_events (clock e) s)"
proof -
  have "\<And>c. host_of (snd (populate_author s c)) =
     (case author c of
        None \<Rightarrow> js ''System''
      | Some a \<Rightarrow> (case populate s a of
                    None \<Rightarrow> js ''System''
                  | Some u \<Rightarrow> if name u = [] then js ''System'' else name u))"
    by (simp add: host_of_def populate_author_def split: option.splits)
  with live_payload(4,5) [OF assms] show ?thesis by simp
qed

theorem live_host_fallback_witness:
  "fst (getLiveContent live_env 7 live_store) = Json 200 (Success live_expected) \<and>
   map live_host (currentLiveEvents live_expected) = [js ''Ann''] \<and>
   map upcoming_host (upcomingEvents live_expected) = [js ''System'']"
proof -
  have h: "fst (getLiveContent live_env 7 live_store) = Json 200 (Success live_expected)"
    by (rule getLiveContent_ex)
  from live_host_fallback [OF h] have
    "map live_host (currentLiveEvents live_expected) =
       map (\<lambda>c. case author c of
                   None \<Rightarrow> js ''System''
                 | Some a \<Rightarrow> (case populate live_store a of
                               None \<Rightarrow> js ''System''
                             | Some u \<Rightarrow> if name u = [] then js ''System'' else name u))
         [workshop] \<and>
     map upcoming_host (upcomingEvents live_expected) =
       map (\<lambda>c. case author c of
                   None \<Rightarrow> js ''System''
                 | Some a \<Rightarrow> (case populate live_store a of
                               None \<Rightarrow> js ''System''
                             | Some u \<Rightarrow> if name u = [] then js ''System'' else name u))
         [meetup]"
    by (simp only: live_env_simps live_queries_ex)
  then show ?thesis using h
    by (simp add: workshop_def meetup_def populate_def live_store_def ann_def js_def)
qed

text \<open>
  C4 as stated fails for the recordings: a returned recording has no host. The payload
  for a recording authored by Ann is the payload for the same recording without an
  author.
\<close>

theorem recording_carries_no_host:
  "fst (getLiveContent live_env 7 recorded_store) =
     fst (getLiveContent live_env 7 unauthored_store) \<and>
   fst (getLiveContent live_env 7 recorded_store) = Json 200 (Success
     \<lparr>currentLiveEvents = [], upcomingEvents = [], recentRecordings = [talk_recording]\<rparr>) \<and>
   populate_author recorded_store talk_by_ann = (talk_by_ann, Some ann) \<and>
   name ann = js ''Ann'' \<and>
   populate_author unauthored_store talk_no_author = (talk_no_author, None)"
  by (simp add: getLiveContent_recorded)
     (simp add: populate_author_def populate_def recorded_store_def unauthored_store_def
      live_store_def talk_by_ann_def talk_no_author_def ann_def)

text \<open>
  C5. For every non-empty query, the results list that getSearchPage returns has at most
  15 entries: at most 10 content results followed by at most 5 user results, and the
  \<open>matchReason\<close> of every entry contains the query text. With every store access
  answering and the query a valid pattern, the operation does return such a list.
\<close>

theorem search_results_bound:
  assumes "truthy q"
  shows "(fst (getSearchPage e userId q s) = Json st (Success d) \<longrightarrow>
            (\<exists>rx. regex e (text_of q) = Some rx \<and>
                  search_results d =
                    map (format_content_result (text_of q)) (contentResults rx s) @
                    map (format_user_result (text_of q)) (userResults rx s)) \<and>
            length (search_results d) \<le> 15 \<and>
            (\<exists>cs us. search_results d = cs @ us \<and> length cs \<le> 10 \<and> length us \<le> 5 \<and>
               (\<forall>r\<in>set cs. is_content r) \<and> (\<forall>r\<in>set us. is_user r)) \<and>
            (\<forall>r\<in>set (search_results d). sublist (text_of q) (matchReason r))) \<and>
         ((\<forall>op. fault e op = None) \<and> regex e (text_of q) \<noteq> None \<longrightarrow>
            status (fst (getSearchPage e userId q s)) = 200)"
proof (intro conjI impI)
  assume a: "fst (getSearchPage e userId q s) = Json st (Success d)"
  then obtain rx where rx: "regex e (text_of q) = Some rx"
    and d: "search_results d = found rx (text_of q) s"
    by (auto simp: getSearchPage_query [OF assms] split: option.splits)
  show "\<exists>rx. regex e (text_of q) = Some rx \<and>
                  search_results d =
                    map (format_content_result (text_of q)) (contentResults rx s) @
                    map (format_user_result (text_of q)) (userResults rx s)"
    using rx d by (simp add: found_def)
  show "length (search_results d) \<le> 15" using d found_props(1) by simp
  show "\<exists>cs us. search_results d = cs @ us \<and> length cs \<le> 10 \<and> length us \<le> 5 \<and>
               (\<forall>r\<in>set cs. is_content r) \<and> (\<forall>r\<in>set us. is_user r)"
    using d found_props(3) by simp
  show "\<forall>r\<in>set (search_results d). sublist (text_of q) (matchReason r)"
    using d found_props(2) by simp
next
  assume "(\<forall>op. fault e op = None) \<and> regex e (text_of q) \<noteq> None"
  then show "status (fst (getSearchPage e userId q s)) = 200"
    by (auto simp: getSearchPage_query [OF assms])
qed

theorem search_results_bound_witness:
  "truthy (Some (js ''go'')) \<and>
   fst (getSearchPage env0 7 (Some (js ''go'')) search_store) =
     Json 200 (Success search_expected) \<and>
   length (search_results search_expected) \<le> 15 \<and>
   list_all (\<lambda>r. sublist (js ''go'') (matchReason r)) (search_results search_expected) \<and>
   status (fst (getSearchPage env0 7 (Some (js ''go'')) search_store)) = 200"
proof -
  have h: "fst (getSearchPage env0 7 (Some (js ''go'')) search_store) =
     Json 200 (Success search_expected)"
    by (simp add: getSearchPage_ex)
  from search_results_bound [OF truthy_go, of env0 7 search_store 200 search_expected] h
  have "length (search_results search_expected) \<le> 15 \<and>
    (\<forall>r\<in>set (search_results search_expected).
       sublist (text_of (Some (js ''go''))) (matchReason r))"
    by blast
  then show ?thesis using h truthy_go by (simp add: list_all_iff text_of_def)
qed

text \<open>
  C6. For an empty or absent query, getSearchPage leaves the store as it was (no search
  record is written) and any payload it returns has an empty results list; with the two
  search-history reads answering it returns recentSearches and popularSearches computed
  from the existing records: up to 5 of the user's records, and up to 5 of the distinct
  queries of all records.
\<close>

theorem empty_query_no_write:
  assumes "\<not> truthy q"
  shows "snd (getSearchPage e userId q s) = s \<and>
         (fst (getSearchPage e userId q s) = Json st (Success d) \<longrightarrow> search_results d = []) \<and>
         (fault e Search_find = None \<and> fault e Search_aggregate = None \<longrightarrow>
            fst (getSearchPage e userId q s) = Json 200 (Success
              \<lparr>recentSearches = map query (recent_searches userId s),
               popularSearches = map fst (popular_searches s),
               search_results = []\<rparr>)) \<and>
         length (recent_searches userId s) =
           min 5 (length (filter (\<lambda>r. search_user r = userId) (Search s))) \<and>
         set (recent_searches userId s) \<subseteq> {r \<in> set (Search s). search_user r = userId} \<and>
         length (popular_searches s) = min 5 (card (query ` set (Search s))) \<and>
         fst ` set (popular_searches s) \<subseteq> query ` set (Search s)"
proof -
  have 1: "snd (getSearchPage e userId q s) = s"
    by (simp add: getSearchPage_empty [OF assms])
  have 2: "fst (getSearchPage e userId q s) = Json st (Success d) \<longrightarrow> search_results d = []"
    by (auto simp: getSearchPage_empty [OF assms] split: option.splits)
  have 3: "fault e Search_find = None \<and> fault e Search_aggregate = None \<longrightarrow>
            fst (getSearchPage e userId q s) = Json 200 (Success
              \<lparr>recentSearches = map query (recent_searches userId s),
               popularSearches = map fst (popular_searches s),
               search_results = []\<rparr>)"
    by (simp add: getSearchPage_empty [OF assms])
  have 4: "length (recent_searches userId s) =
           min 5 (length (filter (\<lambda>r. search_user r = userId) (Search s)))"
    by (simp add: recent_searches_def length_limit_sort_desc)
  have 5: "set (recent_searches userId s) \<subseteq> {r \<in> set (Search s). search_user r = userId}"
    using set_limit_sort_desc [of 5 timestamp "filter (\<lambda>r. search_user r = userId) (Search s)"]
    by (auto simp: recent_searches_def)
  from 1 2 3 4 5 popular_searches_props [of s] show ?thesis by blast
qed

theorem empty_query_no_write_witness:
  "\<not> truthy (Some []) \<and>
   snd (getSearchPage env0 7 (Some []) search_store) = search_store \<and>
   fst (getSearchPage env0 7 (Some []) search_store) = Json 200 (Success
     \<lparr>recentSearches = [js ''go''], popularSearches = [js ''go''], search_results = []\<rparr>)"
proof -
  have n: "\<not> truthy (Some [])" by (simp add: truthy_def)
  have r: "map query (recent_searches 7 search_store) = [js ''go'']"
    by (simp add: recent_searches_def search_store_def old_search_def limit_def sort_desc_def)
  have p: "map fst (popular_searches search_store) = [js ''go'']"
    by (simp add: popular_searches_def top5_def group_count_def search_store_def
        old_search_def limit_def sort_desc_def)
  from empty_query_no_write [OF n, of env0 7 search_store 200 search_expected]
  show ?thesis using n r p by (simp add: fault_env0)
qed

text \<open>
  C7. For every fetched inbox message, the preview that getInbox returns is the first
  100 code units of the body followed by the ellipsis marker \<open>...\<close> when the body is
  longer than 100, and the unmodified body when it is 100 or shorter.
\<close>

theorem inbox_preview:
  assumes "fst (getInbox e userId s) = Json st (Success d)"
  shows "map preview (messages d) =
         map (\<lambda>m. if length (message_content m) > 100
                   then take 100 (message_content m) @ js ''...''
                   else message_content m) (inbox_messages userId s)"
proof -
  from assms obtain fm where fm: "traverse format_message (inbox_page userId s) = Inr fm"
    and d: "messages d = fm"
    by (auto simp: getInbox_eq split: option.splits sum.splits)
  show ?thesis using inbox_page_format(1) [OF fm] d by (simp add: preview_of_eq)
qed

text \<open>
  At a store holding a message of 150 code units and one of 50, the previews are the
  first 100 followed by \<open>...\<close>, and the 50 unchanged.
\<close>

theorem inbox_preview_witness:
  "fst (getInbox env0 7 inbox_store) = Json 200 (Success inbox_expected) \<and>
   map preview (messages inbox_expected) = [replicate 50 98, replicate 100 97 @ js ''...'']"
proof -
  have h: "fst (getInbox env0 7 inbox_store) = Json 200 (Success inbox_expected)"
    by (rule getInbox_ex)
  from inbox_preview [OF h] have
    "map preview (messages inbox_expected) =
       map (\<lambda>m. if length (message_content m) > 100
                 then take 100 (message_content m) @ js ''...''
                 else message_content m) [short_message, long_message]"
    by (simp only: inbox_messages_ex)
  then show ?thesis using h by (simp add: short_message_def long_message_def)
qed

text \<open>
  C8. For every dashboard operation: the activity-logging helper never throws, and when
  its write fails the store is left as it was; whether the logging write fails or not
  changes neither the status of the response nor its error, so the operation can still
  succeed. Any other store access that fails aborts the operation: the response has
  status 500 and carries the message of the first failing access, in program order
  (for the accesses made after a pattern is compiled, provided the pattern is valid).
\<close>

theorem logging_swallowed_other_failures_abort:
  "fst (logActivity e userId ty det s) = Inr () \<and>
   (fault e Activity_create \<noteq> None \<longrightarrow> snd (logActivity e userId ty det s) = s) \<and>
   outcome (fst (getHomePage (logging_fault e x) userId s)) =
     outcome (fst (getHomePage e userId s)) \<and>
   outcome (fst (getSearchPage (logging_fault e x) userId q s)) =
     outcome (fst (getSearchPage e userId q s)) \<and>
   outcome (fst (getInbox (logging_fault e x) userId s)) =
     outcome (fst (getInbox e userId s)) \<and>
   outcome (fst (getForYouContent (logging_fault e x) userId s)) =
     outcome (fst (getForYouContent e userId s)) \<and>
   outcome (fst (getLiveContent (logging_fault e x) userId s)) =
     outcome (fst (getLiveContent e userId s)) \<and>
   (first_fault e [Activity_find, Message_countDocuments, Content_find] = Some m \<longrightarrow>
      fst (getHomePage e userId s) = Json 500 (Failure (StoreError m))) \<and>
   (\<not> truthy q \<and> first_fault e [Search_find, Search_aggregate] = Some m \<longrightarrow>
      fst (getSearchPage e userId q s) = Json 500 (Failure (StoreError m))) \<and>
   (truthy q \<and> first_fault e [Search_create, Search_find, Search_aggregate] = Some m \<longrightarrow>
      fst (getSearchPage e userId q s) = Json 500 (Failure (StoreError m))) \<and>
   (truthy q \<and> regex e (text_of q) \<noteq> None \<and>
    first_fault e [Search_create, Search_find, Search_aggregate, Content_find, User_find,
                   Search_findOneAndUpdate] = Some m \<longrightarrow>
      fst (getSearchPage e userId q s) = Json 500 (Failure (StoreError m))) \<and>
   (first_fault e [Message_find] = Some m \<longrightarrow>
      fst (getInbox e userId s) = Json 500 (Failure (StoreError m))) \<and>
   (first_fault e [Activity_find, Search_find] = Some m \<longrightarrow>
      fst (getForYouContent e userId s) = Json 500 (Failure (StoreError m))) \<and>
   ((\<forall>r\<in>set (searchTerms userId s). regex e (query r) \<noteq> None) \<and>
    first_fault e [Activity_find, Search_find, Content_find, User_find, Content_aggregate] =
      Some m \<longrightarrow>
      fst (getForYouContent e userId s) = Json 500 (Failure (StoreError m))) \<and>
   (first_fault e [Content_find, Content_find_upcoming, Content_find_recordings] = Some m \<longrightarrow>
      fst (getLiveContent e userId s) = Json 500 (Failure (StoreError m)))"
proof (intro conjI impI)
  show "fst (logActivity e userId ty det s) = Inr ()" by (rule logging_swallowed(1))
  show "snd (logActivity e userId ty det s) = s" if "fault e Activity_create \<noteq> None"
    using that by (rule logging_swallowed(2))
  show "outcome (fst (getHomePage (logging_fault e x) userId s)) =
     outcome (fst (getHomePage e userId s))" by (rule home_outcome)
  show "outcome (fst (getSearchPage (logging_fault e x) userId q s)) =
     outcome (fst (getSearchPage e userId q s))" by (rule search_outcome)
  show "outcome (fst (getInbox (logging_fault e x) userId s)) =
     outcome (fst (getInbox e userId s))" by (rule inbox_outcome)
  show "outcome (fst (getForYouContent (logging_fault e x) userId s)) =
     outcome (fst (getForYouContent e userId s))" by (rule for_you_outcome)
  show "outcome (fst (getLiveContent (logging_fault e x) userId s)) =
     outcome (fst (getLiveContent e userId s))" by (rule live_outcome)
  show "fst (getHomePage e userId s) = Json 500 (Failure (StoreError m))"
    if "first_fault e [Activity_find, Message_countDocuments, Content_find] = Some m"
    using that by (rule home_abort)
  show "fst (getSearchPage e userId q s) = Json 500 (Failure (StoreError m))"
    if "\<not> truthy q \<and> first_fault e [Search_find, Search_aggregate] = Some m"
    using that search_abort_empty by blast
  show "fst (getSearchPage e userId q s) = Json 500 (Failure (StoreError m))"
    if "truthy q \<and> first_fault e [Search_create, Search_find, Search_aggregate] = Some m"
    using that search_abort_early by blast
  show "fst (getSearchPage e userId q s) = Json 500 (Failure (StoreError m))"
    if "truthy q \<and> regex e (text_of q) \<noteq> None \<and>
        first_fault e [Search_create, Search_find, Search_aggregate, Content_find, User_find,
                       Search_findOneAndUpdate] = Some m"
    using that search_abort by blast
  show "fst (getInbox e userId s) = Json 500 (Failure (StoreError m))"
    if "first_fault e [Message_find] = Some m"
    using that by (rule inbox_abort)
  show "fst (getForYouContent e userId s) = Json 500 (Failure (StoreError m))"
    if "first_fault e [Activity_find, Search_find] = Some m"
    using that by (rule for_you_abort_early)
  show "fst (getForYouContent e userId s) = Json 500 (Failure (StoreError m))"
    if "(\<forall>r\<in>set (searchTerms userId s). regex e (query r) \<noteq> None) \<and>
        first_fault e [Activity_find, Search_find, Content_find, User_find, Content_aggregate] =
          Some m"
    using that for_you_abort by blast
  show "fst (getLiveContent e userId s) = Json 500 (Failure (StoreError m))"
    if "first_fault e [Content_find, Content_find_upcoming, Content_find_recordings] = Some m"
    using that by (rule live_abort)
qed

theorem logging_swallowed_other_failures_abort_witness:
  "fault degraded_env Activity_create = Some (js ''down'') \<and>
   snd (logActivity degraded_env 7 T_view (js ''inbox'') inbox_store) = inbox_store \<and>
   fst (getInbox degraded_env 7 inbox_store) = Json 200 (Success inbox_expected) \<and>
   outcome (fst (getInbox degraded_env 7 inbox_store)) = (200, None) \<and>
   first_fault failing_env [Message_find] = Some (js ''boom'') \<and>
   fst (getInbox failing_env 7 inbox_store) = Json 500 (Failure (StoreError (js ''boom'')))"
proof -
  have d: "fault degraded_env Activity_create = Some (js ''down'')"
    by (simp add: degraded_env_def logging_fault_def)
  have f: "first_fault failing_env [Message_find] = Some (js ''boom'')"
    by (simp add: failing_env_def)
  have ok: "fst (getInbox degraded_env 7 inbox_store) = Json 200 (Success inbox_expected)"
    by (simp add: getInbox_eq inbox_page_ex degraded_env_def logging_fault_simps fault_env0
        bnd_def format_message_def preview_of_eq inbox_expected_def)
       (simp add: long_message_def short_message_def bob_def)
  have o: "outcome (fst (getInbox env0 7 inbox_store)) = (200, None)"
    by (simp add: getInbox_ex outcome_def)
  note t = logging_swallowed_other_failures_abort
  from t [of degraded_env 7 T_view "js ''inbox''" inbox_store] d
  have 1: "snd (logActivity degraded_env 7 T_view (js ''inbox'') inbox_store) = inbox_store"
    by simp
  from t [of env0 7 T_view "js ''inbox''" inbox_store "Some (js ''down'')"] o
  have 2: "outcome (fst (getInbox degraded_env 7 inbox_store)) = (200, None)"
    by (simp add: degraded_env_def)
  from t [of failing_env 7 T_view "js ''inbox''" inbox_store None None "js ''boom''"] f
  have 3: "fst (getInbox failing_env 7 inbox_store) = Json 500 (Failure (StoreError (js ''boom'')))"
    by blast
  from d 1 ok 2 f 3 show ?thesis by blast
qed

text \<open>
  C9. The unread count that getInbox returns is the number of unread messages among the
  fetched page: the at most 20 newest messages addressed to the user, so the count never
  exceeds 20 whatever the total. For a user with no message, and the message query
  answering, the count is 0 and the message list is empty.
\<close>

theorem inbox_unreadCount:
  "(fst (getInbox e userId s) = Json st (Success d) \<longrightarrow>
      unreadCount d = length (filter (\<lambda>m. \<not> isRead m) (inbox_messages userId s)) \<and>
      map inbox_id (messages d) = map message_id (inbox_messages userId s) \<and>
      unreadCount d \<le> 20) \<and>
   length (inbox_messages userId s) \<le> 20 \<and>
   set (inbox_messages userId s) \<subseteq> {m \<in> set (Message s). recipient m = userId} \<and>
   sorted (map (\<lambda>m. - message_createdAt m) (inbox_messages userId s)) \<and>
   (\<forall>m\<in>set (inbox_messages userId s). \<forall>m'\<in>set (Message s).
      recipient m' = userId \<and> m' \<notin> set (inbox_messages userId s) \<longrightarrow>
      message_createdAt m' \<le> message_createdAt m) \<and>
   (filter (\<lambda>m. recipient m = userId) (Message s) = [] \<and> fault e Message_find = None \<longrightarrow>
      fst (getInbox e userId s) = Json 200 (Success \<lparr>unreadCount = 0, messages = []\<rparr>))"
proof -
  have len: "length (inbox_messages userId s) \<le> 20"
    by (simp add: inbox_messages_def length_limit)
  have sub: "set (inbox_messages userId s) \<subseteq> {m \<in> set (Message s). recipient m = userId}"
    using set_limit_sort_desc [of 20 message_createdAt "filter (\<lambda>m. recipient m = userId) (Message s)"]
    by (auto simp: inbox_messages_def)
  have srt: "sorted (map (\<lambda>m. - message_createdAt m) (inbox_messages userId s))"
    by (simp add: inbox_messages_def sorted_limit_sort_desc)
  have newest: "\<forall>m\<in>set (inbox_messages userId s). \<forall>m'\<in>set (Message s).
      recipient m' = userId \<and> m' \<notin> set (inbox_messages userId s) \<longrightarrow>
      message_createdAt m' \<le> message_createdAt m"
    unfolding inbox_messages_def
    using limit_sort_desc_dropped [of _ 20 message_createdAt "filter (\<lambda>m. recipient m = userId) (Message s)"]
    by auto
  have succ: "fst (getInbox e userId s) = Json st (Success d) \<longrightarrow>
      unreadCount d = length (filter (\<lambda>m. \<not> isRead m) (inbox_messages userId s)) \<and>
      map inbox_id (messages d) = map message_id (inbox_messages userId s) \<and>
      unreadCount d \<le> 20"
  proof
    assume a: "fst (getInbox e userId s) = Json st (Success d)"
    then obtain fm where fm: "traverse format_message (inbox_page userId s) = Inr fm"
      and d: "messages d = fm"
      and u: "unreadCount d = length (filter (\<lambda>p. \<not> isRead (fst p)) (inbox_page userId s))"
      by (auto simp: getInbox_eq split: option.splits sum.splits)
    have u': "unreadCount d = length (filter (\<lambda>m. \<not> isRead m) (inbox_messages userId s))"
      using u by (simp add: inbox_page_def filter_map o_def)
    have "length (filter (\<lambda>m. \<not> isRead m) (inbox_messages userId s)) \<le> 20"
      using len length_filter_le [of "\<lambda>m. \<not> isRead m" "inbox_messages userId s"] by linarith
    with u' inbox_page_format(2) [OF fm] d
    show "unreadCount d = length (filter (\<lambda>m. \<not> isRead m) (inbox_messages userId s)) \<and>
      map inbox_id (messages d) = map message_id (inbox_messages userId s) \<and>
      unreadCount d \<le> 20" by simp
  qed
  have zero: "filter (\<lambda>m. recipient m = userId) (Message s) = [] \<and> fault e Message_find = None \<longrightarrow>
      fst (getInbox e userId s) = Json 200 (Success \<lparr>unreadCount = 0, messages = []\<rparr>)"
    by (simp add: getInbox_eq inbox_page_def inbox_messages_def limit_def sort_desc_def)
  from succ len sub srt newest zero show ?thesis by blast
qed

theorem inbox_unreadCount_witness:
  "(fst (getInbox env0 7 inbox_store) = Json 200 (Success inbox_expected) \<and>
    unreadCount inbox_expected = 1 \<and>
    inbox_messages 7 inbox_store = [short_message, long_message]) \<and>
   (filter (\<lambda>m. recipient m = 9) (Message inbox_store) = [] \<and>
    fault env0 Message_find = None \<and>
    fst (getInbox env0 9 inbox_store) = Json 200 (Success \<lparr>unreadCount = 0, messages = []\<rparr>))"
proof -
  have h: "fst (getInbox env0 7 inbox_store) = Json 200 (Success inbox_expected)"
    by (rule getInbox_ex)
  have a: "unreadCount inbox_expected =
      length (filter (\<lambda>m. \<not> isRead m) (inbox_messages 7 inbox_store))"
    using inbox_unreadCount [of env0 7 inbox_store 200 inbox_expected] h by blast
  have z: "filter (\<lambda>m. recipient m = 9) (Message inbox_store) = [] \<and>
      fault env0 Message_find = None"
    by (simp add: inbox_store_def long_message_def short_message_def env0_def)
  have b: "fst (getInbox env0 9 inbox_store) = Json 200 (Success \<lparr>unreadCount = 0, messages = []\<rparr>)"
    using inbox_unreadCount [of env0 9 inbox_store 200 inbox_expected] z by blast
  from a have "unreadCount inbox_expected = 1"
    by (simp add: inbox_messages_ex short_message_def long_message_def)
  with h z b show ?thesis by (simp add: inbox_messages_ex)
qed

text \<open>
  C10. If one of the 3 most recent content items has no description (absent or empty)
  and no body, getHomePage produces no payload: it answers with status 500 and a failure
  body; the failure is the TypeError of reading \<open>substring\<close> of \<open>undefined\<close> when
  the three reads before it answer.
\<close>

theorem home_missing_body_fails:
  assumes "c \<in> set (recentContent s)" and "\<not> truthy (description c)"
    and "content_body c = None"
  shows "status (fst (getHomePage e userId s)) = 500 \<and>
         (\<exists>err. body (fst (getHomePage e userId s)) = Failure err) \<and>
         (fault e Activity_find = None \<and> fault e Message_countDocuments = None \<and>
          fault e Content_find = None \<longrightarrow>
            fst (getHomePage e userId s) = Json 500 (Failure TypeError))"
proof -
  from traverse_Inl_ex [of c "recentContent s" announcement_of TypeError]
    assms(1) announcement_of_undefined [OF assms(2,3)]
  obtain err where t: "traverse announcement_of (recentContent s) = Inl err" by blast
  from traverse_Inl [OF t] announcement_of_error have "err = TypeError" by blast
  with t show ?thesis
    by (auto simp: getHomePage_eq split: option.splits)
qed

theorem home_missing_body_fails_witness:
  "go_article \<in> set (recentContent search_store) \<and> \<not> truthy (description go_article) \<and>
   content_body go_article = None \<and>
   fst (getHomePage env0 7 search_store) = Json 500 (Failure TypeError)"
proof -
  have a: "go_article \<in> set (recentContent search_store)"
    by (simp add: recentContent_def search_store_def limit_def sort_desc_def)
  have b: "\<not> truthy (description go_article)" by (simp add: go_article_def truthy_def)
  have c: "content_body go_article = None" by (simp add: go_article_def)
  from home_missing_body_fails [OF a b c, of env0 7] a b c
  show ?thesis by (simp add: fault_env0)
qed

end
